theory Spec2Isabelle
  imports Main
begin

section \<open>Domain model (types.go)\<close>

text \<open>
  \<^verbatim>\<open>Principal\<close>, \<^verbatim>\<open>Action\<close>, \<^verbatim>\<open>Resource\<close> and \<^verbatim>\<open>Effect\<close> are Go string types; the two
  effects are the string constants of the source. A \<^verbatim>\<open>time.Time\<close> is an integer instant.
\<close>

type_synonym Principal = string
type_synonym Action = string
type_synonym Resource = string
type_synonym Effect = string

definition EffectAllow :: Effect where
  "EffectAllow = ''allow''"

definition EffectDeny :: Effect where
  "EffectDeny = ''deny''"

record Condition =
  Name :: string
  Expression :: string

record ContextRequest =
  At :: int
  IP :: string
  UserAgent :: string

record Context =
  Request :: ContextRequest

record Request =
  Principal :: Principal
  Action :: Action
  Resource :: Resource
  Context :: Context

record Statement =
  ID :: string
  Active :: bool
  Name :: string
  Description :: string
  Effect :: Effect
  Principals :: "Principal list"
  Actions :: "Action list"
  Resources :: "Resource list"
  Conditions :: "Condition list"
  CreatedAt :: int
  UpdatedAt :: int
  CreatedBy :: string
  UpdatedBy :: string

text \<open>\<^verbatim>\<open>Decider *string\<close>: \<open>None\<close> is the nil pointer.\<close>

record Response =
  Effect :: Effect
  Message :: string
  Decider :: "string option"

text \<open>
  A Go \<^verbatim>\<open>error\<close> value: a plain error, or \<^verbatim>\<open>fmt.Errorf("<prefix>%w", err)\<close> wrapping
  another one. \<open>Error\<close> is the method \<^verbatim>\<open>Error()\<close>, the text that \<^verbatim>\<open>%s\<close> prints.
\<close>

datatype error = ErrorString string | WrapError string error

fun Error :: "error \<Rightarrow> string" where
  "Error (ErrorString msg) = msg"
| "Error (WrapError prefix err) = prefix @ Error err"

section \<open>Third-party functions the source calls\<close>

text \<open>
  The source calls \<^verbatim>\<open>doublestar.Match\<close> (github.com/bmatcuk/doublestar/v4),
  \<^verbatim>\<open>expr.Compile\<close> and \<^verbatim>\<open>expr.Run\<close> (github.com/expr-lang/expr) and formats with the verb
  \<^verbatim>\<open>%q\<close> (\<^verbatim>\<open>strconv.Quote\<close>). None of them is code of this repository, so the functions
  below take them as the fields of one parameter \<open>X\<close>. A Go function returning
  \<^verbatim>\<open>(v, error)\<close> is a sum: \<open>Inl\<close> the error, \<open>Inr\<close> the value.
  \<^verbatim>\<open>expr.Run\<close> returns a value of any type; the source only asks whether it is a bool.
\<close>

datatype exprValue = BoolValue bool | OtherValue

record 'program externals =
  doublestar_Match :: "string \<Rightarrow> string \<Rightarrow> error + bool"
  expr_Compile :: "string \<Rightarrow> error + 'program"
  expr_Run :: "'program \<Rightarrow> Request \<Rightarrow> error + exprValue"
  strconv_Quote :: "string \<Rightarrow> string"

section \<open>Condition evaluation (types.go)\<close>

definition Condition_Evaluate :: "'p externals \<Rightarrow> Condition \<Rightarrow> Request \<Rightarrow> error + bool" where
  "Condition_Evaluate X c req =
     (case expr_Compile X (Expression c) of
        Inl err \<Rightarrow> Inl err
      | Inr program \<Rightarrow>
          (case expr_Run X program req of
             Inl err \<Rightarrow> Inl err
           | Inr res \<Rightarrow>
               (case res of BoolValue result \<Rightarrow> Inr result | OtherValue \<Rightarrow> Inr False)))"

section \<open>The decision evaluator\<close>

definition enhancePattern :: "string \<Rightarrow> string" where
  "enhancePattern pattern = (if pattern = ''*'' then ''**'' else pattern)"

text \<open>
  \<^verbatim>\<open>matched, _ := doublestar.Match(pattern, name)\<close>: the error is dropped and the
  boolean of a failed match is false.
\<close>

definition matched_dropping_error :: "'p externals \<Rightarrow> string \<Rightarrow> string \<Rightarrow> bool" where
  "matched_dropping_error X pattern name =
     (case doublestar_Match X pattern name of Inl err \<Rightarrow> False | Inr matched \<Rightarrow> matched)"

fun actionMatches :: "'p externals \<Rightarrow> Action list \<Rightarrow> Action \<Rightarrow> bool" where
  "actionMatches X [] requestedAction = False"
| "actionMatches X (a # actions) requestedAction =
     (if matched_dropping_error X (enhancePattern a) requestedAction then True
      else actionMatches X actions requestedAction)"

fun resourceMatches :: "'p externals \<Rightarrow> Resource list \<Rightarrow> Resource \<Rightarrow> bool" where
  "resourceMatches X [] requestedResource = False"
| "resourceMatches X (r # resources) requestedResource =
     (if matched_dropping_error X (enhancePattern r) requestedResource then True
      else resourceMatches X resources requestedResource)"

fun principalMatches :: "'p externals \<Rightarrow> Principal list \<Rightarrow> Principal \<Rightarrow> bool" where
  "principalMatches X [] requestedPrincipal = False"
| "principalMatches X (p # principals) requestedPrincipal =
     (if matched_dropping_error X (enhancePattern p) requestedPrincipal then True
      else principalMatches X principals requestedPrincipal)"

fun allConditionsMet :: "'p externals \<Rightarrow> Condition list \<Rightarrow> Request \<Rightarrow> error + bool" where
  "allConditionsMet X [] req = Inr True"
| "allConditionsMet X (c # conditions) req =
     (case Condition_Evaluate X c req of
        Inl err \<Rightarrow>
          Inl (WrapError (''failed to evaluate condition '' @ strconv_Quote X (Condition.Name c) @ '': '') err)
      | Inr met \<Rightarrow> if \<not> met then Inr False else allConditionsMet X conditions req)"

definition statementMatches :: "'p externals \<Rightarrow> Statement \<Rightarrow> Request \<Rightarrow> error + bool" where
  "statementMatches X stmt req =
     (if \<not> principalMatches X (Principals stmt) (Principal req) then Inr False
      else if \<not> actionMatches X (Actions stmt) (Action req) then Inr False
      else if \<not> resourceMatches X (Resources stmt) (Resource req) then Inr False
      else (case allConditionsMet X (Conditions stmt) req of
              Inl err \<Rightarrow> Inl err
            | Inr conditionsMet \<Rightarrow> Inr conditionsMet))"

definition filterStatementsByEffect :: "Statement list \<Rightarrow> Effect \<Rightarrow> Statement list" where
  "filterStatementsByEffect statements effect =
     filter (\<lambda>s. Statement.Effect s = effect) statements"

text \<open>
  The loop over the Deny statements: \<open>Some\<close> is the Response of a \<^verbatim>\<open>return\<close> inside the
  loop, \<open>None\<close> is the loop running to its end.
\<close>

fun denyLoop :: "'p externals \<Rightarrow> Statement list \<Rightarrow> Request \<Rightarrow> Response option" where
  "denyLoop X [] req = None"
| "denyLoop X (stmt # denyStatements) req =
     (case statementMatches X stmt req of
        Inl err \<Rightarrow>
          Some \<lparr>Effect = EffectDeny,
                Message = ''failed to evaluate condition for deny statement '' @
                          strconv_Quote X (ID stmt) @ '': '' @ Error err,
                Decider = Some (ID stmt)\<rparr>
      | Inr matches \<Rightarrow>
          if matches then
            Some \<lparr>Effect = EffectDeny,
                  Message = ''denied by statement '' @ strconv_Quote X (ID stmt),
                  Decider = Some (ID stmt)\<rparr>
          else denyLoop X denyStatements req)"

text \<open>
  The loop over the Allow statements also prints: the first component is what
  \<^verbatim>\<open>fmt.Printf\<close> wrote to standard output, one string for each skipped statement.
\<close>

fun allowLoop :: "'p externals \<Rightarrow> Statement list \<Rightarrow> Request \<Rightarrow> string list \<times> Response option" where
  "allowLoop X [] req = ([], None)"
| "allowLoop X (stmt # allowStatements) req =
     (case statementMatches X stmt req of
        Inl err \<Rightarrow>
          (case allowLoop X allowStatements req of
             (printed, r) \<Rightarrow>
               ((''skipping allow statement '' @ strconv_Quote X (ID stmt) @
                 '' due to condition error: '' @ Error err @ [CHR 0x0A]) # printed, r))
      | Inr matches \<Rightarrow>
          if matches then
            ([], Some \<lparr>Effect = EffectAllow,
                       Message = ''allowed by statement '' @ strconv_Quote X (ID stmt),
                       Decider = Some (ID stmt)\<rparr>)
          else allowLoop X allowStatements req)"

text \<open>
  \<^verbatim>\<open>Storage\<close> and \<^verbatim>\<open>Evaluator\<close> are Go interfaces with one method each; a value of the
  interface is the function its method computes.
\<close>

type_synonym Storage = "Principal \<Rightarrow> error + Statement list"
type_synonym Evaluator = "Request \<Rightarrow> error + Response"

definition Evaluate_io :: "'p externals \<Rightarrow> Storage \<Rightarrow> Request \<Rightarrow> string list \<times> (error + Response)" where
  "Evaluate_io X storage req =
     (case storage (Principal req) of
        Inl err \<Rightarrow> ([], Inl (WrapError ''failed to list statements: '' err))
      | Inr statements \<Rightarrow>
          if length statements = 0 then
            ([], Inr \<lparr>Effect = EffectDeny,
                      Message = ''no applicable statements found, access denied by default'',
                      Decider = None\<rparr>)
          else
            (let denyStatements = filterStatementsByEffect statements EffectDeny;
                 allowStatements = filterStatementsByEffect statements EffectAllow
             in case denyLoop X denyStatements req of
                  Some response \<Rightarrow> ([], Inr response)
                | None \<Rightarrow>
                    (case allowLoop X allowStatements req of
                       (printed, Some response) \<Rightarrow> (printed, Inr response)
                     | (printed, None) \<Rightarrow>
                         (printed,
                          Inr \<lparr>Effect = EffectDeny,
                               Message = ''no matching statement found, access denied by default'',
                               Decider = None\<rparr>))))"

text \<open>\<^verbatim>\<open>evaluator.Evaluate\<close>: the pair \<^verbatim>\<open>(Response, error)\<close> it returns.\<close>

definition Evaluate :: "'p externals \<Rightarrow> Storage \<Rightarrow> Evaluator" where
  "Evaluate X storage req = snd (Evaluate_io X storage req)"

text \<open>
  A statement \<^emph>\<open>applies\<close> to a request when one of the two loops returns at it: a Deny
  statement unless \<open>statementMatches\<close> returns (false, nil), so also when its conditions
  fail to evaluate; an Allow statement when \<open>statementMatches\<close> returns (true, nil).
\<close>

definition applies :: "'p externals \<Rightarrow> Statement \<Rightarrow> Request \<Rightarrow> bool" where
  "applies X s req =
     (if Statement.Effect s = EffectDeny then statementMatches X s req \<noteq> Inr False
      else Statement.Effect s = EffectAllow \<and> statementMatches X s req = Inr True)"

section \<open>The in-memory store (storage_inmem.go)\<close>

text \<open>
  \<^verbatim>\<open>statements map[string]Statement\<close>. The mutex is not modelled. The three updating
  methods always return a nil error, so the model returns the new store alone.
\<close>

record inMemoryStorage =
  statements :: "string \<rightharpoonup> Statement"

definition NewInMemoryStorage :: inMemoryStorage where
  "NewInMemoryStorage = \<lparr>statements = Map.empty\<rparr>"

definition SaveStatement :: "inMemoryStorage \<Rightarrow> Statement \<Rightarrow> inMemoryStorage" where
  "SaveStatement s statement = s\<lparr>statements := (statements s)(ID statement \<mapsto> statement)\<rparr>"

definition DeleteStatement :: "inMemoryStorage \<Rightarrow> string \<Rightarrow> inMemoryStorage" where
  "DeleteStatement s key = s\<lparr>statements := (statements s)(key := None)\<rparr>"

definition GetStatement :: "inMemoryStorage \<Rightarrow> string \<Rightarrow> Statement option" where
  "GetStatement s key = statements s key"

text \<open>
  \<^verbatim>\<open>for _, stmt := range s.statements\<close> visits every entry of the map once, in an order
  that Go leaves unspecified and that may change from one loop to the next. The order of
  one run of the loop is the list \<open>order\<close> of the keys, each key once.
\<close>

definition iteration_order :: "inMemoryStorage \<Rightarrow> string list \<Rightarrow> bool" where
  "iteration_order s order = (distinct order \<and> set order = dom (statements s))"

definition range_statements :: "inMemoryStorage \<Rightarrow> string list \<Rightarrow> Statement list" where
  "range_statements s order = List.map_filter (statements s) order"

text \<open>
  The inner loop over \<^verbatim>\<open>stmt.Principals\<close>: \<open>Inl\<close> is \<^verbatim>\<open>return nil, err\<close>, \<open>Inr True\<close> is
  the \<^verbatim>\<open>append\<close> followed by \<^verbatim>\<open>break\<close>, \<open>Inr False\<close> is the loop running to its end.
  The pattern goes to \<^verbatim>\<open>doublestar.Match\<close> as it is stored.
\<close>

fun principalsLoop :: "'p externals \<Rightarrow> Principal list \<Rightarrow> Principal \<Rightarrow> error + bool" where
  "principalsLoop X [] principal0 = Inr False"
| "principalsLoop X (p # principals) principal0 =
     (case doublestar_Match X p principal0 of
        Inl err \<Rightarrow> Inl err
      | Inr matched \<Rightarrow> if matched then Inr True else principalsLoop X principals principal0)"

fun statementsLoop ::
  "'p externals \<Rightarrow> Statement list \<Rightarrow> Principal \<Rightarrow> Statement list \<Rightarrow> error + Statement list" where
  "statementsLoop X [] principal0 result = Inr result"
| "statementsLoop X (stmt # rest) principal0 result =
     (case principalsLoop X (Principals stmt) principal0 of
        Inl err \<Rightarrow> Inl err
      | Inr matched \<Rightarrow>
          statementsLoop X rest principal0 (if matched then result @ [stmt] else result))"

definition ListStatementsByPrincipal ::
  "'p externals \<Rightarrow> inMemoryStorage \<Rightarrow> string list \<Rightarrow> Principal \<Rightarrow> error + Statement list" where
  "ListStatementsByPrincipal X s order principal0 =
     statementsLoop X (range_statements s order) principal0 []"

section \<open>The in-memory principal resolver (principal_resolver_inmem.go)\<close>

record inMemoryPrincipalResolver =
  roleMappings :: "Principal \<rightharpoonup> Principal list"

definition NewInMemoryPrincipalResolver :: inMemoryPrincipalResolver where
  "NewInMemoryPrincipalResolver = \<lparr>roleMappings = Map.empty\<rparr>"

definition AddRoleMapping ::
  "inMemoryPrincipalResolver \<Rightarrow> Principal \<Rightarrow> Principal list \<Rightarrow> inMemoryPrincipalResolver" where
  "AddRoleMapping r userPrincipal roles =
     r\<lparr>roleMappings := (roleMappings r)(userPrincipal \<mapsto> roles)\<rparr>"

definition HasPrefix :: "string \<Rightarrow> string \<Rightarrow> bool" where
  "HasPrefix s pre = (take (length pre) s = pre)"

definition ResolvePrincipals :: "inMemoryPrincipalResolver \<Rightarrow> Principal \<Rightarrow> error + Principal list" where
  "ResolvePrincipals r principal0 =
     (let principals = [principal0] in
      if HasPrefix principal0 ''users/'' then
        (case roleMappings r principal0 of
           Some roles \<Rightarrow> Inr (principals @ roles)
         | None \<Rightarrow> Inr principals)
      else Inr principals)"

section \<open>The expanding evaluator\<close>

type_synonym PrincipalResolver = "Principal \<Rightarrow> error + Principal list"

record ExpandingEvaluator =
  baseEvaluator :: Evaluator
  resolver :: PrincipalResolver

definition NewExpandingEvaluator :: "Evaluator \<Rightarrow> PrincipalResolver \<Rightarrow> ExpandingEvaluator" where
  "NewExpandingEvaluator base res = \<lparr>baseEvaluator = base, resolver = res\<rparr>"

text \<open>
  The three variables the loop updates. The two pointers are set with \<^verbatim>\<open>&principal\<close>;
  since Go 1.22 every iteration has a loop variable of its own (the tests call
  \<^verbatim>\<open>t.Context()\<close>, of Go 1.24), so a pointer keeps the principal of the iteration that
  set it.
\<close>

record expansion =
  responses :: "Response list"
  allowingPrincipal :: "Principal option"
  denyingPrincipal :: "Principal option"

text \<open>\<open>Inl\<close> is the Response of the \<^verbatim>\<open>return\<close> inside the loop.\<close>

fun expandLoop ::
  "ExpandingEvaluator \<Rightarrow> Request \<Rightarrow> Principal list \<Rightarrow> expansion \<Rightarrow> Response + expansion" where
  "expandLoop e req [] st = Inr st"
| "expandLoop e req (principal0 # principals) st =
     (let expandedReq = req\<lparr>Principal := principal0\<rparr> in
      case baseEvaluator e expandedReq of
        Inl err \<Rightarrow>
          Inl \<lparr>Effect = EffectDeny,
               Message = ''evaluation error for principal '' @ principal0 @ '': '' @ Error err,
               Decider = None\<rparr>
      | Inr response \<Rightarrow>
          (let st1 = st\<lparr>responses := responses st @ [response]\<rparr>;
               st2 = (if Response.Effect response = EffectDeny \<and> denyingPrincipal st1 = None \<and>
                         Decider response \<noteq> None
                      then st1\<lparr>denyingPrincipal := Some principal0\<rparr> else st1);
               st3 = (if Response.Effect response = EffectAllow \<and> allowingPrincipal st2 = None \<and>
                         Decider response \<noteq> None
                      then st2\<lparr>allowingPrincipal := Some principal0\<rparr> else st2)
           in expandLoop e req principals st3))"

definition ExpandingEvaluator_Evaluate :: "ExpandingEvaluator \<Rightarrow> Evaluator" where
  "ExpandingEvaluator_Evaluate e req =
     (case resolver e (Principal req) of
        Inl err \<Rightarrow>
          Inr \<lparr>Effect = EffectDeny,
               Message = ''failed to resolve principals: '' @ Error err,
               Decider = None\<rparr>
      | Inr principals \<Rightarrow>
          (case expandLoop e req principals
                  \<lparr>responses = [], allowingPrincipal = None, denyingPrincipal = None\<rparr> of
             Inl response \<Rightarrow> Inr response
           | Inr st \<Rightarrow>
               (case denyingPrincipal st of
                  Some dp \<Rightarrow>
                    Inr \<lparr>Effect = EffectDeny,
                         Message = ''access denied for principal '' @ dp,
                         Decider = Some (''principal_expansion:'' @ dp)\<rparr>
                | None \<Rightarrow>
                    (case allowingPrincipal st of
                       Some ap \<Rightarrow>
                         Inr \<lparr>Effect = EffectAllow,
                              Message = ''access allowed for principal '' @ ap,
                              Decider = Some (''principal_expansion:'' @ ap)\<rparr>
                     | None \<Rightarrow>
                         Inr \<lparr>Effect = EffectDeny,
                              Message = ''no matching statements found for any expanded principal, access denied by default'',
                              Decider = None\<rparr>))))"

text \<open>
  Two notions for the statements about the expanding evaluator, in the words of the
  specification (section 4.5) rather than of the loop. \<open>explicit eff base req p\<close>: the
  wrapped evaluator answers the request made for principal \<open>p\<close> with a Response of
  effect \<open>eff\<close> that has a Decider. \<open>merged base req ps\<close>: the Response for the first
  principal of \<open>ps\<close> with an explicit Deny, else for the first with an explicit Allow,
  else the default. The lemmas on the loop relate the source's loop to them.
\<close>

definition explicit :: "Effect \<Rightarrow> Evaluator \<Rightarrow> Request \<Rightarrow> Principal \<Rightarrow> bool" where
  "explicit eff base req p =
     (case base (req\<lparr>Principal := p\<rparr>) of
        Inl err \<Rightarrow> False
      | Inr response \<Rightarrow> Response.Effect response = eff \<and> Decider response \<noteq> None)"

definition merged :: "Evaluator \<Rightarrow> Request \<Rightarrow> Principal list \<Rightarrow> Response" where
  "merged base req ps =
     (case find (explicit EffectDeny base req) ps of
        Some dp \<Rightarrow>
          \<lparr>Effect = EffectDeny, Message = ''access denied for principal '' @ dp,
           Decider = Some (''principal_expansion:'' @ dp)\<rparr>
      | None \<Rightarrow>
          (case find (explicit EffectAllow base req) ps of
             Some ap \<Rightarrow>
               \<lparr>Effect = EffectAllow, Message = ''access allowed for principal '' @ ap,
                Decider = Some (''principal_expansion:'' @ ap)\<rparr>
           | None \<Rightarrow>
               \<lparr>Effect = EffectDeny,
                Message = ''no matching statements found for any expanded principal, access denied by default'',
                Decider = None\<rparr>))"

section \<open>The pattern matcher, from the specification\<close>

text \<open>
  Modelled from the spec: \<^verbatim>\<open>doublestar.Match\<close>, a function of the library
  github.com/bmatcuk/doublestar/v4 whose source is not in the repository. The
  specification (section 4.1) gives its semantics: \<^verbatim>\<open>/\<close> separates path segments,
  \<^verbatim>\<open>*\<close> matches any run of characters that does not cross a \<^verbatim>\<open>/\<close>, \<^verbatim>\<open>**\<close> matches any
  run of characters, \<^verbatim>\<open>?\<close> matches exactly one character, \<^verbatim>\<open>[...]\<close> matches one
  character of a class such as \<^verbatim>\<open>[0-9]\<close>, and a malformed pattern (here: a class that
  is not closed) is an error. Every other character matches itself.
\<close>

datatype glob_token = Literal char | AnyChar | Star | DoubleStar | CharClass "(char \<times> char) list"

definition ErrBadPattern :: error where
  "ErrBadPattern = ErrorString ''syntax error in pattern''"

definition glob_cons :: "glob_token \<Rightarrow> error + glob_token list \<Rightarrow> error + glob_token list" where
  "glob_cons t r = (case r of Inl err \<Rightarrow> Inl err | Inr ts \<Rightarrow> Inr (t # ts))"

text \<open>
  \<open>glob_parse cls pattern\<close> reads a pattern into tokens; \<open>cls\<close> is \<open>Some ranges\<close> while
  the reader is inside a class, with the ranges read so far.
\<close>

fun glob_parse :: "(char \<times> char) list option \<Rightarrow> string \<Rightarrow> error + glob_token list" where
  "glob_parse None [] = Inr []"
| "glob_parse (Some ranges) [] = Inl ErrBadPattern"
| "glob_parse (Some ranges) (c # d # hi # rest) =
     (if c = CHR '']'' then glob_cons (CharClass ranges) (glob_parse None (d # hi # rest))
      else if d = CHR ''-'' \<and> hi \<noteq> CHR '']'' then glob_parse (Some (ranges @ [(c, hi)])) rest
      else glob_parse (Some (ranges @ [(c, c)])) (d # hi # rest))"
| "glob_parse (Some ranges) (c # rest) =
     (if c = CHR '']'' then glob_cons (CharClass ranges) (glob_parse None rest)
      else glob_parse (Some (ranges @ [(c, c)])) rest)"
| "glob_parse None (c # d # rest) =
     (if c = CHR ''*'' \<and> d = CHR ''*'' then glob_cons DoubleStar (glob_parse None rest)
      else if c = CHR ''*'' then glob_cons Star (glob_parse None (d # rest))
      else if c = CHR ''?'' then glob_cons AnyChar (glob_parse None (d # rest))
      else if c = CHR ''['' then glob_parse (Some []) (d # rest)
      else glob_cons (Literal c) (glob_parse None (d # rest)))"
| "glob_parse None [c] =
     (if c = CHR ''*'' then Inr [Star]
      else if c = CHR ''?'' then Inr [AnyChar]
      else if c = CHR ''['' then Inl ErrBadPattern
      else Inr [Literal c])"

definition in_class :: "(char \<times> char) list \<Rightarrow> char \<Rightarrow> bool" where
  "in_class ranges x =
     list_ex (\<lambda>(lo, hi). (of_char lo :: nat) \<le> of_char x \<and> (of_char x :: nat) \<le> of_char hi) ranges"

fun glob_match :: "glob_token list \<Rightarrow> string \<Rightarrow> bool" where
  "glob_match [] name = (name = [])"
| "glob_match (Literal c # ts) [] = False"
| "glob_match (Literal c # ts) (x # xs) = (x = c \<and> glob_match ts xs)"
| "glob_match (AnyChar # ts) [] = False"
| "glob_match (AnyChar # ts) (x # xs) = glob_match ts xs"
| "glob_match (CharClass ranges # ts) [] = False"
| "glob_match (CharClass ranges # ts) (x # xs) = (in_class ranges x \<and> glob_match ts xs)"
| "glob_match (Star # ts) [] = glob_match ts []"
| "glob_match (Star # ts) (x # xs) =
     (glob_match ts (x # xs) \<or> (x \<noteq> CHR ''/'' \<and> glob_match (Star # ts) xs))"
| "glob_match (DoubleStar # ts) [] = glob_match ts []"
| "glob_match (DoubleStar # ts) (x # xs) =
     (glob_match ts (x # xs) \<or> glob_match (DoubleStar # ts) xs)"

text \<open>
  Modelled from the spec: \<^verbatim>\<open>doublestar.Match(pattern, name)\<close>, with the semantics above. The
  error is the one for a malformed pattern; otherwise the boolean says whether the whole
  name matches the whole pattern.
\<close>

definition glob_Match :: "string \<Rightarrow> string \<Rightarrow> error + bool" where
  "glob_Match pattern name =
     (case glob_parse None pattern of
        Inl err \<Rightarrow> Inl err
      | Inr ts \<Rightarrow> Inr (glob_match ts name))"

section \<open>Values for the worked examples\<close>

text \<open>
  The examples below run the functions on concrete values. Their \<open>X\<close> uses the pattern
  matcher above; a \<^verbatim>\<open>%q\<close> that puts its argument between double quotes, which is what
  Go prints for a string of printable ASCII without quote or backslash; and a small
  expression engine that refuses the text \<^verbatim>\<open>invalid syntax\<close> (the broken expression of
  the repository's tests), knows the programs \<^verbatim>\<open>true\<close> and \<^verbatim>\<open>false\<close>, and gives a value
  that is not a bool for any other text.
\<close>

definition example_Quote :: "string \<Rightarrow> string" where
  "example_Quote s = CHR 0x22 # s @ [CHR 0x22]"

definition example_Compile :: "string \<Rightarrow> error + string" where
  "example_Compile src =
     (if src = ''invalid syntax'' then Inl (ErrorString ''unexpected token'') else Inr src)"

definition example_Run :: "string \<Rightarrow> Request \<Rightarrow> error + exprValue" where
  "example_Run program req =
     (if program = ''true'' then Inr (BoolValue True)
      else if program = ''false'' then Inr (BoolValue False)
      else Inr OtherValue)"

definition example_X :: "string externals" where
  "example_X =
     \<lparr>doublestar_Match = glob_Match, expr_Compile = example_Compile,
      expr_Run = example_Run, strconv_Quote = example_Quote\<rparr>"

text \<open>
  The struct literals of the tests: the fields given, every other field at its zero
  value (so \<open>Active\<close> is false, as in every statement of the repository's tests).
\<close>

definition example_statement ::
  "string \<Rightarrow> Effect \<Rightarrow> Principal list \<Rightarrow> Action list \<Rightarrow> Resource list \<Rightarrow> Condition list \<Rightarrow> Statement" where
  "example_statement i eff ps as rs cs =
     \<lparr>ID = i, Active = False, Name = [], Description = [], Effect = eff, Principals = ps,
      Actions = as, Resources = rs, Conditions = cs, CreatedAt = 0, UpdatedAt = 0,
      CreatedBy = [], UpdatedBy = []\<rparr>"

definition example_request :: "Principal \<Rightarrow> Action \<Rightarrow> Resource \<Rightarrow> Request" where
  "example_request p a r =
     \<lparr>Principal = p, Action = a, Resource = r,
      Context = \<lparr>Request = \<lparr>At = 0, IP = [], UserAgent = []\<rparr>\<rparr>\<rparr>"

text \<open>
  The statements, the store and the role mapping of the repository's test of the expanding
  evaluator, with two more statements: a Deny statement for the analyst role with a
  broken condition, and a Deny statement for the user. \<open>example_storage s1 s2\<close> is the
  in-memory store holding \<open>s1\<close> and \<open>s2\<close>, iterated in this order;
  \<open>unavailable_for p storage\<close> is a storage that fails for the principal \<open>p\<close>.
\<close>

definition moderatorStatement :: Statement where
  "moderatorStatement =
     example_statement ''allow-moderator-download'' EffectAllow [''roles/moderator'']
       [''invoice.download''] [''invoices/*''] []"

definition analystDenyStatement :: Statement where
  "analystDenyStatement =
     example_statement ''deny-analyst-specific'' EffectDeny [''roles/analyst'']
       [''invoice.download''] [''invoices/238423684''] []"

definition analystBadConditionStatement :: Statement where
  "analystBadConditionStatement =
     example_statement ''deny-analyst-bad-cond'' EffectDeny [''roles/analyst'']
       [''invoice.download''] [''invoices/*'']
       [\<lparr>Condition.Name = ''BadCond'', Expression = ''invalid syntax''\<rparr>]"

definition markDenyStatement :: Statement where
  "markDenyStatement =
     example_statement ''deny-mark'' EffectDeny [''users/mark'']
       [''invoice.download''] [''invoices/*''] []"

definition example_store :: "Statement \<Rightarrow> Statement \<Rightarrow> inMemoryStorage" where
  "example_store s1 s2 = SaveStatement (SaveStatement NewInMemoryStorage s1) s2"

definition example_storage :: "Statement \<Rightarrow> Statement \<Rightarrow> Storage" where
  "example_storage s1 s2 =
     ListStatementsByPrincipal example_X (example_store s1 s2) [ID s1, ID s2]"

definition unavailable_for :: "Principal \<Rightarrow> Storage \<Rightarrow> Storage" where
  "unavailable_for p storage =
     (\<lambda>q. if q = p then Inl (ErrorString ''connection refused'') else storage q)"

definition example_resolver :: PrincipalResolver where
  "example_resolver =
     ResolvePrincipals
       (AddRoleMapping NewInMemoryPrincipalResolver ''users/mark''
          [''roles/moderator'', ''roles/analyst''])"

definition example_expanding :: "Storage \<Rightarrow> ExpandingEvaluator" where
  "example_expanding storage = NewExpandingEvaluator (Evaluate example_X storage) example_resolver"

section \<open>Properties\<close>

subsection \<open>Evaluation of the worked examples\<close>

lemmas example_defs =
  example_X_def example_statement_def example_request_def example_Quote_def
  example_Compile_def example_Run_def glob_Match_def glob_cons_def in_class_def
  ErrBadPattern_def enhancePattern_def matched_dropping_error_def statementMatches_def
  Condition_Evaluate_def EffectAllow_def EffectDeny_def filterStatementsByEffect_def

subsection \<open>The loops of the decision evaluator\<close>

lemma Effect_distinct: "EffectAllow \<noteq> EffectDeny" "EffectDeny \<noteq> EffectAllow"
  by (simp_all add: EffectAllow_def EffectDeny_def)

lemma Evaluate_eq:
  "Evaluate X storage req =
     (case storage (Principal req) of
        Inl err \<Rightarrow> Inl (WrapError ''failed to list statements: '' err)
      | Inr stmts \<Rightarrow>
          if stmts = [] then
            Inr \<lparr>Effect = EffectDeny,
                 Message = ''no applicable statements found, access denied by default'',
                 Decider = None\<rparr>
          else
            (case denyLoop X (filterStatementsByEffect stmts EffectDeny) req of
               Some response \<Rightarrow> Inr response
             | None \<Rightarrow>
                 (case snd (allowLoop X (filterStatementsByEffect stmts EffectAllow) req) of
                    Some response \<Rightarrow> Inr response
                  | None \<Rightarrow>
                      Inr \<lparr>Effect = EffectDeny,
                           Message = ''no matching statement found, access denied by default'',
                           Decider = None\<rparr>)))"
proof (cases "storage (Principal req)")
  case (Inl err)
  then show ?thesis by (simp add: Evaluate_def Evaluate_io_def)
next
  case (Inr stmts)
  show ?thesis
  proof (cases "allowLoop X (filterStatementsByEffect stmts EffectAllow) req")
    case (Pair printed r)
    with Inr show ?thesis
      by (simp add: Evaluate_def Evaluate_io_def Let_def split: option.split)
  qed
qed

lemma allConditionsMet_True_iff:
  "allConditionsMet X cs req = Inr True \<longleftrightarrow> (\<forall>c\<in>set cs. Condition_Evaluate X c req = Inr True)"
  by (induction cs) (auto split: sum.splits)

lemma statementMatches_True_iff:
  "statementMatches X s req = Inr True \<longleftrightarrow>
     principalMatches X (Principals s) (Principal req) \<and>
     actionMatches X (Actions s) (Action req) \<and>
     resourceMatches X (Resources s) (Resource req) \<and>
     allConditionsMet X (Conditions s) req = Inr True"
  by (auto simp: statementMatches_def split: sum.splits)

lemma statementMatches_Inl_iff:
  "statementMatches X s req = Inl e \<longleftrightarrow>
     principalMatches X (Principals s) (Principal req) \<and>
     actionMatches X (Actions s) (Action req) \<and>
     resourceMatches X (Resources s) (Resource req) \<and>
     allConditionsMet X (Conditions s) req = Inl e"
  by (auto simp: statementMatches_def split: sum.splits)

lemma statementMatches_not_False:
  "statementMatches X s req \<noteq> Inr False \<Longrightarrow>
     principalMatches X (Principals s) (Principal req) \<and>
     actionMatches X (Actions s) (Action req) \<and>
     resourceMatches X (Resources s) (Resource req) \<and>
     allConditionsMet X (Conditions s) req \<noteq> Inr False"
  by (auto simp: statementMatches_def split: sum.splits if_splits)

lemma denyLoop_skip:
  "\<forall>x\<in>set pre. statementMatches X x req = Inr False \<Longrightarrow>
     denyLoop X (pre @ rest) req = denyLoop X rest req"
  by (induction pre) auto

lemma denyLoop_None_iff:
  "denyLoop X ds req = None \<longleftrightarrow> (\<forall>d\<in>set ds. statementMatches X d req = Inr False)"
  by (induction ds) (auto split: sum.splits)

lemma denyLoop_Some:
  "denyLoop X ds req = Some r \<Longrightarrow>
     \<exists>d\<in>set ds. statementMatches X d req \<noteq> Inr False \<and>
        Response.Effect r = EffectDeny \<and> Decider r = Some (ID d)"
  by (induction ds) (auto split: sum.splits if_splits)

lemma allowLoop_skip:
  "\<forall>x\<in>set pre. statementMatches X x req \<noteq> Inr True \<Longrightarrow>
     snd (allowLoop X (pre @ rest) req) = snd (allowLoop X rest req)"
  by (induction pre) (auto split: sum.splits prod.splits)

lemma allowLoop_None_iff:
  "snd (allowLoop X as req) = None \<longleftrightarrow> (\<forall>a\<in>set as. statementMatches X a req \<noteq> Inr True)"
  by (induction as) (auto split: sum.splits prod.splits)

lemma allowLoop_Some:
  "snd (allowLoop X as req) = Some r \<Longrightarrow>
     \<exists>a\<in>set as. statementMatches X a req = Inr True \<and>
        r = \<lparr>Effect = EffectAllow, Message = ''allowed by statement '' @ strconv_Quote X (ID a),
              Decider = Some (ID a)\<rparr>"
  by (induction as) (auto split: sum.splits prod.splits if_splits)

lemma allConditionsMet_error:
  "\<forall>c'\<in>set cs. Condition_Evaluate X c' req = Inr True \<Longrightarrow>
   Condition_Evaluate X c req = Inl err \<Longrightarrow>
   allConditionsMet X (cs @ c # cs') req =
     Inl (WrapError (''failed to evaluate condition '' @ strconv_Quote X (Condition.Name c) @ '': '') err)"
  by (induction cs) auto

lemma Condition_Evaluate_Inl_iff:
  "Condition_Evaluate X c req = Inl err \<longleftrightarrow>
     expr_Compile X (Expression c) = Inl err \<or>
     (\<exists>program. expr_Compile X (Expression c) = Inr program \<and> expr_Run X program req = Inl err)"
  by (auto simp: Condition_Evaluate_def split: sum.splits exprValue.splits)

lemma Evaluate_io_deny:
  "storage (Principal req) = Inr stmts \<Longrightarrow> stmts \<noteq> [] \<Longrightarrow>
   denyLoop X (filterStatementsByEffect stmts EffectDeny) req = Some r \<Longrightarrow>
   Evaluate_io X storage req = ([], Inr r)"
  by (simp add: Evaluate_io_def)

lemma filter_split_nonempty:
  "filterStatementsByEffect stmts eff = pre @ s # post \<Longrightarrow> stmts \<noteq> [] \<and> s \<in> set stmts"
  by (metis append_is_Nil_conv filterStatementsByEffect_def filter.simps(1) in_set_conv_decomp
      list.distinct(1) mem_Collect_eq set_filter)

lemma allowLoop_remove:
  "statementMatches X a req = Inl e \<Longrightarrow>
     snd (allowLoop X (xs @ a # ys) req) = snd (allowLoop X (xs @ ys) req)"
  by (induction xs) (auto split: sum.splits prod.splits)

lemma Evaluate_total:
  "storage (Principal req) = Inr stmts \<Longrightarrow> \<exists>r. Evaluate X storage req = Inr r"
  by (simp add: Evaluate_eq split: option.split)

lemma Evaluate_default:
  assumes "storage (Principal req) = Inr stmts" and "stmts \<noteq> []"
    and "\<forall>s\<in>set stmts. Statement.Effect s = EffectDeny \<longrightarrow> statementMatches X s req = Inr False"
    and "\<forall>s\<in>set stmts. Statement.Effect s = EffectAllow \<longrightarrow> statementMatches X s req \<noteq> Inr True"
  shows "Evaluate X storage req =
           Inr \<lparr>Effect = EffectDeny,
                Message = ''no matching statement found, access denied by default'',
                Decider = None\<rparr>"
proof -
  have "denyLoop X (filterStatementsByEffect stmts EffectDeny) req = None"
    using assms(3) by (simp add: denyLoop_None_iff filterStatementsByEffect_def)
  moreover have "snd (allowLoop X (filterStatementsByEffect stmts EffectAllow) req) = None"
    using assms(4) by (simp add: allowLoop_None_iff filterStatementsByEffect_def)
  ultimately show ?thesis using assms(1,2) by (simp add: Evaluate_eq)
qed

lemma Evaluate_Decider:
  assumes "storage (Principal req) = Inr stmts" and "Evaluate X storage req = Inr r"
  shows "(Decider r \<noteq> None \<longleftrightarrow> (\<exists>s\<in>set stmts. applies X s req)) \<and>
         (\<forall>i. Decider r = Some i \<longrightarrow> (\<exists>s\<in>set stmts. applies X s req \<and> ID s = i))"
proof (cases "stmts = []")
  case True
  with assms show ?thesis by (auto simp: Evaluate_eq)
next
  case False
  let ?ds = "filterStatementsByEffect stmts EffectDeny"
  let ?as = "filterStatementsByEffect stmts EffectAllow"
  show ?thesis
  proof (cases "denyLoop X ?ds req")
    case (Some r')
    with assms False have "r = r'" by (simp add: Evaluate_eq)
    with denyLoop_Some[OF Some] obtain d where "d \<in> set ?ds" "statementMatches X d req \<noteq> Inr False"
      "Decider r = Some (ID d)" by auto
    then have "d \<in> set stmts" "applies X d req" "Decider r = Some (ID d)"
      by (auto simp: filterStatementsByEffect_def applies_def)
    then show ?thesis by auto
  next
    case None
    note dn = None
    show ?thesis
    proof (cases "snd (allowLoop X ?as req)")
      case (Some r')
      with assms False dn have "r = r'" by (simp add: Evaluate_eq)
      with allowLoop_Some[OF Some] obtain a where "a \<in> set ?as" "statementMatches X a req = Inr True"
        "Decider r = Some (ID a)" by auto
      then have "a \<in> set stmts" "applies X a req" "Decider r = Some (ID a)"
        by (auto simp: filterStatementsByEffect_def applies_def Effect_distinct)
      then show ?thesis by auto
    next
      case None
      with assms False dn have "Decider r = None" by (auto simp: Evaluate_eq)
      moreover have "\<not> applies X s req" if "s \<in> set stmts" for s
        using that dn None
        by (auto simp: denyLoop_None_iff allowLoop_None_iff filterStatementsByEffect_def applies_def)
      ultimately show ?thesis by auto
    qed
  qed
qed

lemma Evaluate_not_applies:
  assumes "storage (Principal req) = Inr stmts" and "stmts \<noteq> []"
    and "\<forall>s\<in>set stmts. \<not> applies X s req"
  shows "Evaluate X storage req =
           Inr \<lparr>Effect = EffectDeny,
                Message = ''no matching statement found, access denied by default'',
                Decider = None\<rparr>"
  using assms(1,2)
proof (rule Evaluate_default)
  show "\<forall>s\<in>set stmts. Statement.Effect s = EffectDeny \<longrightarrow> statementMatches X s req = Inr False"
    using assms(3) by (auto simp: applies_def)
  show "\<forall>s\<in>set stmts. Statement.Effect s = EffectAllow \<longrightarrow> statementMatches X s req \<noteq> Inr True"
    using assms(3) by (auto simp: applies_def Effect_distinct)
qed

lemma Evaluate_applies_deny:
  assumes "storage (Principal req) = Inr stmts" and "s \<in> set stmts"
    and "Statement.Effect s = EffectDeny" and "statementMatches X s req \<noteq> Inr False"
  shows "\<exists>r. Evaluate X storage req = Inr r \<and> Response.Effect r = EffectDeny \<and> Decider r \<noteq> None"
proof -
  let ?ds = "filterStatementsByEffect stmts EffectDeny"
  have "s \<in> set ?ds" using assms(2,3) by (simp add: filterStatementsByEffect_def)
  with assms(4) have "\<not> (\<forall>x\<in>set ?ds. statementMatches X x req = Inr False)" by blast
  then have "denyLoop X ?ds req \<noteq> None"
    by (simp only: denyLoop_None_iff not_False_eq_True)
  then obtain r where r: "denyLoop X ?ds req = Some r" by auto
  from denyLoop_Some[OF r] have "Response.Effect r = EffectDeny" "Decider r \<noteq> None" by auto
  moreover have "Evaluate X storage req = Inr r"
    using assms(1,2) r by (auto simp: Evaluate_eq)
  ultimately show ?thesis by blast
qed

subsection \<open>The loop of the expanding evaluator\<close>

lemma expandLoop_ok:
  "\<forall>p\<in>set ps. \<exists>response. baseEvaluator e (req\<lparr>Principal := p\<rparr>) = Inr response \<Longrightarrow>
   \<exists>st'. expandLoop e req ps st = Inr st' \<and>
     map Inr (responses st') =
       map Inr (responses st) @ map (\<lambda>p. baseEvaluator e (req\<lparr>Principal := p\<rparr>)) ps \<and>
     denyingPrincipal st' =
       (case denyingPrincipal st of Some d \<Rightarrow> Some d
        | None \<Rightarrow> find (explicit EffectDeny (baseEvaluator e) req) ps) \<and>
     allowingPrincipal st' =
       (case allowingPrincipal st of Some a \<Rightarrow> Some a
        | None \<Rightarrow> find (explicit EffectAllow (baseEvaluator e) req) ps)"
proof (induction ps arbitrary: st)
  case Nil
  then show ?case by (simp split: option.split)
next
  case (Cons p ps)
  from Cons.prems obtain response where r: "baseEvaluator e (req\<lparr>Principal := p\<rparr>) = Inr response"
    by auto
  from Cons.prems have rest: "\<forall>p\<in>set ps. \<exists>response. baseEvaluator e (req\<lparr>Principal := p\<rparr>) = Inr response"
    by simp
  define st1 where "st1 = st\<lparr>responses := responses st @ [response]\<rparr>"
  define st2 where "st2 =
    (if Response.Effect response = EffectDeny \<and> denyingPrincipal st1 = None \<and> Decider response \<noteq> None
     then st1\<lparr>denyingPrincipal := Some p\<rparr> else st1)"
  define st3 where "st3 =
    (if Response.Effect response = EffectAllow \<and> allowingPrincipal st2 = None \<and> Decider response \<noteq> None
     then st2\<lparr>allowingPrincipal := Some p\<rparr> else st2)"
  have step: "expandLoop e req (p # ps) st = expandLoop e req ps st3"
    by (simp only: expandLoop.simps Let_def r sum.case st3_def st2_def st1_def)
  have resp: "responses st3 = responses st @ [response]"
    by (simp add: st1_def st2_def st3_def)
  have deny: "denyingPrincipal st3 =
      (case denyingPrincipal st of Some d \<Rightarrow> Some d
       | None \<Rightarrow> if explicit EffectDeny (baseEvaluator e) req p then Some p else None)"
    using r by (auto simp: st1_def st2_def st3_def explicit_def Effect_distinct split: option.split)
  have allow: "allowingPrincipal st3 =
      (case allowingPrincipal st of Some a \<Rightarrow> Some a
       | None \<Rightarrow> if explicit EffectAllow (baseEvaluator e) req p then Some p else None)"
    using r by (auto simp: st1_def st2_def st3_def explicit_def Effect_distinct split: option.split)
  from Cons.IH[OF rest, of st3] obtain st' where st':
    "expandLoop e req ps st3 = Inr st'"
    "map Inr (responses st') =
       map Inr (responses st3) @ map (\<lambda>p. baseEvaluator e (req\<lparr>Principal := p\<rparr>)) ps"
    "denyingPrincipal st' =
       (case denyingPrincipal st3 of Some d \<Rightarrow> Some d
        | None \<Rightarrow> find (explicit EffectDeny (baseEvaluator e) req) ps)"
    "allowingPrincipal st' =
       (case allowingPrincipal st3 of Some a \<Rightarrow> Some a
        | None \<Rightarrow> find (explicit EffectAllow (baseEvaluator e) req) ps)"
    by blast
  have "expandLoop e req (p # ps) st = Inr st'"
    using step st'(1) by simp
  moreover have "map Inr (responses st') =
       map Inr (responses st) @ map (\<lambda>p. baseEvaluator e (req\<lparr>Principal := p\<rparr>)) (p # ps)"
    using st'(2) resp r by simp
  moreover have "denyingPrincipal st' =
       (case denyingPrincipal st of Some d \<Rightarrow> Some d
        | None \<Rightarrow> find (explicit EffectDeny (baseEvaluator e) req) (p # ps))"
    using st'(3) deny by (simp split: option.split)
  moreover have "allowingPrincipal st' =
       (case allowingPrincipal st of Some a \<Rightarrow> Some a
        | None \<Rightarrow> find (explicit EffectAllow (baseEvaluator e) req) (p # ps))"
    using st'(4) allow by (simp split: option.split)
  ultimately show ?case by blast
qed

lemma expandLoop_error:
  "\<forall>q\<in>set pre. \<exists>response. baseEvaluator e (req\<lparr>Principal := q\<rparr>) = Inr response \<Longrightarrow>
   baseEvaluator e (req\<lparr>Principal := p\<rparr>) = Inl err \<Longrightarrow>
   expandLoop e req (pre @ p # post) st =
     Inl \<lparr>Effect = EffectDeny,
          Message = ''evaluation error for principal '' @ p @ '': '' @ Error err,
          Decider = None\<rparr>"
proof (induction pre arbitrary: st)
  case Nil
  then show ?case by simp
next
  case (Cons q pre)
  from Cons.prems(1) obtain response where "baseEvaluator e (req\<lparr>Principal := q\<rparr>) = Inr response"
    by auto
  moreover from Cons.prems(1) have
    "\<forall>q\<in>set pre. \<exists>response. baseEvaluator e (req\<lparr>Principal := q\<rparr>) = Inr response" by simp
  ultimately show ?case
    using Cons.IH Cons.prems(2) by (simp add: Let_def)
qed

lemma Expanding_merged:
  assumes "resolver e (Principal req) = Inr ps"
    and "\<forall>p\<in>set ps. \<exists>response. baseEvaluator e (req\<lparr>Principal := p\<rparr>) = Inr response"
  shows "ExpandingEvaluator_Evaluate e req = Inr (merged (baseEvaluator e) req ps)"
proof -
  from expandLoop_ok[OF assms(2), of "\<lparr>responses = [], allowingPrincipal = None, denyingPrincipal = None\<rparr>"]
  obtain st' where st': "expandLoop e req ps \<lparr>responses = [], allowingPrincipal = None, denyingPrincipal = None\<rparr> = Inr st'"
    "denyingPrincipal st' = find (explicit EffectDeny (baseEvaluator e) req) ps"
    "allowingPrincipal st' = find (explicit EffectAllow (baseEvaluator e) req) ps"
    by auto
  then show ?thesis
    using assms(1) by (simp add: ExpandingEvaluator_Evaluate_def merged_def split: option.split)
qed

lemma Expanding_error:
  assumes "resolver e (Principal req) = Inr (pre @ p # post)"
    and "\<forall>q\<in>set pre. \<exists>response. baseEvaluator e (req\<lparr>Principal := q\<rparr>) = Inr response"
    and "baseEvaluator e (req\<lparr>Principal := p\<rparr>) = Inl err"
  shows "ExpandingEvaluator_Evaluate e req =
     Inr \<lparr>Effect = EffectDeny,
          Message = ''evaluation error for principal '' @ p @ '': '' @ Error err,
          Decider = None\<rparr>"
  using assms(1) expandLoop_error[OF assms(2,3)]
  by (simp add: ExpandingEvaluator_Evaluate_def)

lemma Expanding_total: "\<exists>r. ExpandingEvaluator_Evaluate e req = Inr r"
  by (simp add: ExpandingEvaluator_Evaluate_def split: sum.split option.split)

lemma Expanding_Decider:
  assumes "ExpandingEvaluator_Evaluate e req = Inr r"
  shows "Decider r \<noteq> None \<longleftrightarrow>
     (\<exists>ps. resolver e (Principal req) = Inr ps \<and>
        (\<forall>p\<in>set ps. \<exists>response. baseEvaluator e (req\<lparr>Principal := p\<rparr>) = Inr response) \<and>
        (\<exists>p\<in>set ps. explicit EffectDeny (baseEvaluator e) req p \<or>
                     explicit EffectAllow (baseEvaluator e) req p))"
proof (cases "resolver e (Principal req)")
  case (Inl err)
  with assms show ?thesis by (auto simp: ExpandingEvaluator_Evaluate_def)
next
  case (Inr ps)
  show ?thesis
  proof (cases "\<forall>p\<in>set ps. \<exists>response. baseEvaluator e (req\<lparr>Principal := p\<rparr>) = Inr response")
    case True
    from Expanding_merged[OF Inr True] assms have r: "r = merged (baseEvaluator e) req ps" by simp
    have "Decider r \<noteq> None \<longleftrightarrow>
          find (explicit EffectDeny (baseEvaluator e) req) ps \<noteq> None \<or>
          find (explicit EffectAllow (baseEvaluator e) req) ps \<noteq> None"
      by (auto simp: r merged_def split: option.splits)
    also have "\<dots> \<longleftrightarrow> (\<exists>p\<in>set ps. explicit EffectDeny (baseEvaluator e) req p \<or>
                     explicit EffectAllow (baseEvaluator e) req p)"
      by (auto simp: find_None_iff)
    finally show ?thesis using Inr True by auto
  next
    case False
    then have "\<exists>p\<in>set ps. \<not> (\<exists>response. baseEvaluator e (req\<lparr>Principal := p\<rparr>) = Inr response)"
      by blast
    from split_list_first_prop[OF this] obtain pre p post where sp: "ps = pre @ p # post"
      "\<not> (\<exists>response. baseEvaluator e (req\<lparr>Principal := p\<rparr>) = Inr response)"
      "\<forall>q\<in>set pre. \<exists>response. baseEvaluator e (req\<lparr>Principal := q\<rparr>) = Inr response"
      by auto
    from sp(2) obtain err where "baseEvaluator e (req\<lparr>Principal := p\<rparr>) = Inl err"
      by (cases "baseEvaluator e (req\<lparr>Principal := p\<rparr>)") auto
    from Expanding_error[OF Inr[unfolded sp(1)] sp(3) this] assms have "Decider r = None" by simp
    with Inr False show ?thesis by auto
  qed
qed

lemma Expanding_storage_error:
  assumes "resolver e (Principal req) = Inr (pre @ p # post)"
    and "baseEvaluator e = Evaluate X storage"
    and "\<forall>q\<in>set pre. \<exists>stmts. storage q = Inr stmts"
    and "storage p = Inl err"
  shows "ExpandingEvaluator_Evaluate e req =
        Inr \<lparr>Effect = EffectDeny,
             Message = ''evaluation error for principal '' @ p @ '': failed to list statements: '' @ Error err,
             Decider = None\<rparr>"
proof -
  have "\<forall>q\<in>set pre. \<exists>response. baseEvaluator e (req\<lparr>Principal := q\<rparr>) = Inr response"
  proof
    fix q assume "q \<in> set pre"
    with assms(3) obtain stmts where "storage (Principal (req\<lparr>Principal := q\<rparr>)) = Inr stmts" by auto
    from Evaluate_total[where storage = storage, OF this]
    show "\<exists>response. baseEvaluator e (req\<lparr>Principal := q\<rparr>) = Inr response"
      by (simp add: assms(2))
  qed
  moreover have "baseEvaluator e (req\<lparr>Principal := p\<rparr>) =
                   Inl (WrapError ''failed to list statements: '' err)"
    using assms(4) by (simp add: assms(2) Evaluate_eq)
  ultimately show ?thesis
    using Expanding_error[OF assms(1)] by simp
qed

lemma find_append_first:
  "find P (xs @ ys) = (case find P xs of None \<Rightarrow> find P ys | Some x \<Rightarrow> Some x)"
  by (induction xs) auto

lemma Expanding_Deny_if_explicit_deny:
  assumes "resolver e (Principal req) = Inr ps" and "p \<in> set ps"
    and "explicit EffectDeny (baseEvaluator e) req p"
  shows "\<exists>r. ExpandingEvaluator_Evaluate e req = Inr r \<and> Response.Effect r = EffectDeny"
proof (cases "\<forall>p\<in>set ps. \<exists>response. baseEvaluator e (req\<lparr>Principal := p\<rparr>) = Inr response")
  case True
  from assms(2,3) have "find (explicit EffectDeny (baseEvaluator e) req) ps \<noteq> None"
    by (auto simp: find_None_iff)
  then show ?thesis
    using Expanding_merged[OF assms(1) True] by (auto simp: merged_def)
next
  case False
  then have "\<exists>p\<in>set ps. \<not> (\<exists>response. baseEvaluator e (req\<lparr>Principal := p\<rparr>) = Inr response)"
    by blast
  from split_list_first_prop[OF this] obtain pre q post where sp: "ps = pre @ q # post"
    "\<not> (\<exists>response. baseEvaluator e (req\<lparr>Principal := q\<rparr>) = Inr response)"
    "\<forall>q\<in>set pre. \<exists>response. baseEvaluator e (req\<lparr>Principal := q\<rparr>) = Inr response"
    by auto
  from sp(2) obtain err where "baseEvaluator e (req\<lparr>Principal := q\<rparr>) = Inl err"
    by (cases "baseEvaluator e (req\<lparr>Principal := q\<rparr>)") auto
  from Expanding_error[OF assms(1)[unfolded sp(1)] sp(3) this] show ?thesis by simp
qed

subsection \<open>The in-memory store and the pattern matcher\<close>


lemma statementsLoop_Inr_iff:
  "statementsLoop X stmts p acc = Inr r \<longleftrightarrow>
     (\<forall>s\<in>set stmts. \<exists>b. principalsLoop X (Principals s) p = Inr b) \<and>
     r = acc @ filter (\<lambda>s. principalsLoop X (Principals s) p = Inr True) stmts"
  by (induction stmts arbitrary: acc) (auto split: sum.splits)

lemma set_range_statements:
  "iteration_order s order \<Longrightarrow> set (range_statements s order) = ran (statements s)"
proof -
  assume io: "iteration_order s order"
  have "set (List.map_filter m ks) = {v. \<exists>k\<in>set ks. m k = Some v}" for m :: "string \<rightharpoonup> Statement" and ks
    by (induction ks) (auto simp: List.map_filter_simps split: option.splits)
  then have "set (range_statements s order) = {v. \<exists>k\<in>set order. statements s k = Some v}"
    by (simp add: range_statements_def)
  also have "\<dots> = ran (statements s)"
    using io by (auto simp: iteration_order_def ran_def)
  finally show ?thesis .
qed





lemma glob_match_DoubleStar: "glob_match [DoubleStar] name"
  by (induction name) simp_all

lemma glob_Match_doublestar: "glob_Match ''**'' name = Inr True"
  by (simp add: glob_Match_def glob_cons_def glob_match_DoubleStar)

subsection \<open>The decision evaluator on two orders of the same statements\<close>

lemma denyLoop_unique:
  assumes "d \<in> set ds" and "statementMatches X d req \<noteq> Inr False"
    and "\<forall>x\<in>set ds. statementMatches X x req \<noteq> Inr False \<longrightarrow> x = d"
  shows "denyLoop X ds req = denyLoop X [d] req"
proof -
  from split_list_first[OF assms(1)] obtain pre post where sp: "ds = pre @ d # post" "d \<notin> set pre"
    by blast
  have "statementMatches X x req = Inr False" if "x \<in> set pre" for x
  proof (rule ccontr)
    assume "statementMatches X x req \<noteq> Inr False"
    moreover have "x \<in> set ds" using that sp(1) by simp
    ultimately have "x = d" using assms(3) by blast
    with that sp(2) show False by simp
  qed
  then have "\<forall>x\<in>set pre. statementMatches X x req = Inr False"
    by blast
  then have "denyLoop X ds req = denyLoop X (d # post) req"
    unfolding sp(1) by (rule denyLoop_skip)
  also have "\<dots> = denyLoop X [d] req"
  proof (cases "statementMatches X d req")
    case (Inl err)
    then show ?thesis by simp
  next
    case (Inr matches)
    with assms(2) have "matches" by simp
    with Inr show ?thesis by simp
  qed
  finally show ?thesis .
qed

lemma allowLoop_unique:
  assumes "a \<in> set as" and "statementMatches X a req = Inr True"
    and "\<forall>x\<in>set as. statementMatches X x req = Inr True \<longrightarrow> x = a"
  shows "snd (allowLoop X as req) = snd (allowLoop X [a] req)"
proof -
  from split_list_first[OF assms(1)] obtain pre post where sp: "as = pre @ a # post" "a \<notin> set pre"
    by blast
  have "statementMatches X x req \<noteq> Inr True" if "x \<in> set pre" for x
  proof
    assume "statementMatches X x req = Inr True"
    moreover have "x \<in> set as" using that sp(1) by simp
    ultimately have "x = a" using assms(3) by blast
    with that sp(2) show False by simp
  qed
  then have "\<forall>x\<in>set pre. statementMatches X x req \<noteq> Inr True"
    by blast
  then have "snd (allowLoop X as req) = snd (allowLoop X (a # post) req)"
    unfolding sp(1) by (rule allowLoop_skip)
  also have "\<dots> = snd (allowLoop X [a] req)"
    using assms(2) by simp
  finally show ?thesis .
qed

lemma denyLoop_same_set:
  assumes "set ds = set ds'"
    and "\<forall>x\<in>set ds. \<forall>y\<in>set ds. statementMatches X x req \<noteq> Inr False \<and>
           statementMatches X y req \<noteq> Inr False \<longrightarrow> x = y"
  shows "denyLoop X ds req = denyLoop X ds' req"
proof (cases "\<exists>d\<in>set ds. statementMatches X d req \<noteq> Inr False")
  case True
  then obtain d where d: "d \<in> set ds" "statementMatches X d req \<noteq> Inr False" by blast
  with assms(2) have u: "\<forall>x\<in>set ds. statementMatches X x req \<noteq> Inr False \<longrightarrow> x = d" by blast
  have "denyLoop X ds req = denyLoop X [d] req"
    using d u by (rule denyLoop_unique)
  moreover have "denyLoop X ds' req = denyLoop X [d] req"
  proof (rule denyLoop_unique)
    show "d \<in> set ds'" using d(1) assms(1) by simp
    show "statementMatches X d req \<noteq> Inr False" by (rule d(2))
    show "\<forall>x\<in>set ds'. statementMatches X x req \<noteq> Inr False \<longrightarrow> x = d"
      using u assms(1) by simp
  qed
  ultimately show ?thesis by simp
next
  case False
  then have "\<forall>d\<in>set ds. statementMatches X d req = Inr False" by blast
  moreover from this have "\<forall>d\<in>set ds'. statementMatches X d req = Inr False"
    using assms(1) by simp
  ultimately have "denyLoop X ds req = None" "denyLoop X ds' req = None"
    by (simp_all only: denyLoop_None_iff)
  then show ?thesis by simp
qed

lemma allowLoop_same_set:
  assumes "set as = set as'"
    and "\<forall>x\<in>set as. \<forall>y\<in>set as. statementMatches X x req = Inr True \<and>
           statementMatches X y req = Inr True \<longrightarrow> x = y"
  shows "snd (allowLoop X as req) = snd (allowLoop X as' req)"
proof (cases "\<exists>a\<in>set as. statementMatches X a req = Inr True")
  case True
  then obtain a where a: "a \<in> set as" "statementMatches X a req = Inr True" by blast
  with assms(2) have u: "\<forall>x\<in>set as. statementMatches X x req = Inr True \<longrightarrow> x = a" by blast
  have "snd (allowLoop X as req) = snd (allowLoop X [a] req)"
    using a u by (rule allowLoop_unique)
  moreover have "snd (allowLoop X as' req) = snd (allowLoop X [a] req)"
  proof (rule allowLoop_unique)
    show "a \<in> set as'" using a(1) assms(1) by simp
    show "statementMatches X a req = Inr True" by (rule a(2))
    show "\<forall>x\<in>set as'. statementMatches X x req = Inr True \<longrightarrow> x = a"
      using u assms(1) by simp
  qed
  ultimately show ?thesis by simp
next
  case False
  then have "\<forall>a\<in>set as. statementMatches X a req \<noteq> Inr True" by blast
  moreover from this have "\<forall>a\<in>set as'. statementMatches X a req \<noteq> Inr True"
    using assms(1) by simp
  ultimately have "snd (allowLoop X as req) = None" "snd (allowLoop X as' req) = None"
    by (simp_all only: allowLoop_None_iff)
  then show ?thesis by simp
qed

lemma Evaluate_same_set:
  assumes "storage1 (Principal req) = Inr l1" and "storage2 (Principal req) = Inr l2"
    and "set l1 = set l2"
    and "\<forall>x\<in>set l1. \<forall>y\<in>set l1. applies X x req \<and> applies X y req \<and>
           Statement.Effect x = Statement.Effect y \<longrightarrow> x = y"
  shows "Evaluate X storage1 req = Evaluate X storage2 req"
proof -
  have e: "l1 = [] \<longleftrightarrow> l2 = []" using assms(3) by auto
  have "denyLoop X (filterStatementsByEffect l1 EffectDeny) req =
        denyLoop X (filterStatementsByEffect l2 EffectDeny) req"
  proof (rule denyLoop_same_set)
    show "set (filterStatementsByEffect l1 EffectDeny) = set (filterStatementsByEffect l2 EffectDeny)"
      using assms(3) by (simp add: filterStatementsByEffect_def)
    show "\<forall>x\<in>set (filterStatementsByEffect l1 EffectDeny).
            \<forall>y\<in>set (filterStatementsByEffect l1 EffectDeny).
              statementMatches X x req \<noteq> Inr False \<and> statementMatches X y req \<noteq> Inr False \<longrightarrow> x = y"
      using assms(4) by (auto simp: filterStatementsByEffect_def applies_def)
  qed
  moreover have "snd (allowLoop X (filterStatementsByEffect l1 EffectAllow) req) =
        snd (allowLoop X (filterStatementsByEffect l2 EffectAllow) req)"
  proof (rule allowLoop_same_set)
    show "set (filterStatementsByEffect l1 EffectAllow) = set (filterStatementsByEffect l2 EffectAllow)"
      using assms(3) by (simp add: filterStatementsByEffect_def)
    show "\<forall>x\<in>set (filterStatementsByEffect l1 EffectAllow).
            \<forall>y\<in>set (filterStatementsByEffect l1 EffectAllow).
              statementMatches X x req = Inr True \<and> statementMatches X y req = Inr True \<longrightarrow> x = y"
      using assms(4) by (auto simp: filterStatementsByEffect_def applies_def Effect_distinct)
  qed
  ultimately show ?thesis
    using assms(1,2) e by (simp add: Evaluate_eq cong: option.case_cong)
qed

lemma Evaluate_Effect:
  assumes "storage (Principal req) = Inr stmts" and "Evaluate X storage req = Inr r"
  shows "Response.Effect r =
     (if (\<forall>s\<in>set stmts. Statement.Effect s = EffectDeny \<longrightarrow> \<not> applies X s req) \<and>
         (\<exists>s\<in>set stmts. Statement.Effect s = EffectAllow \<and> applies X s req)
      then EffectAllow else EffectDeny)"
proof (cases "stmts = []")
  case True
  with assms show ?thesis by (auto simp: Evaluate_eq)
next
  case False
  let ?ds = "filterStatementsByEffect stmts EffectDeny"
  let ?as = "filterStatementsByEffect stmts EffectAllow"
  show ?thesis
  proof (cases "denyLoop X ?ds req")
    case (Some r')
    with assms False have "r = r'" by (simp add: Evaluate_eq)
    with denyLoop_Some[OF Some] obtain d where "d \<in> set ?ds" "statementMatches X d req \<noteq> Inr False"
      "Response.Effect r = EffectDeny" by auto
    then have "d \<in> set stmts" "Statement.Effect d = EffectDeny" "applies X d req"
      "Response.Effect r = EffectDeny"
      by (auto simp: filterStatementsByEffect_def applies_def)
    then show ?thesis by auto
  next
    case None
    note dn = None
    then have nod: "\<forall>s\<in>set stmts. Statement.Effect s = EffectDeny \<longrightarrow> \<not> applies X s req"
      by (auto simp: denyLoop_None_iff filterStatementsByEffect_def applies_def)
    show ?thesis
    proof (cases "snd (allowLoop X ?as req)")
      case (Some r')
      with assms False dn have "r = r'" by (simp add: Evaluate_eq)
      with allowLoop_Some[OF Some] obtain a where "a \<in> set ?as" "statementMatches X a req = Inr True"
        "Response.Effect r = EffectAllow" by auto
      then have "a \<in> set stmts" "Statement.Effect a = EffectAllow" "applies X a req"
        "Response.Effect r = EffectAllow"
        by (auto simp: filterStatementsByEffect_def applies_def Effect_distinct)
      with nod show ?thesis by auto
    next
      case None
      with assms False dn have "Response.Effect r = EffectDeny" by (auto simp: Evaluate_eq)
      moreover have "\<not> (\<exists>s\<in>set stmts. Statement.Effect s = EffectAllow \<and> applies X s req)"
        using None
        by (auto simp: allowLoop_None_iff filterStatementsByEffect_def applies_def Effect_distinct)
      ultimately show ?thesis by auto
    qed
  qed
qed

lemma ListStatementsByPrincipal_orders:
  assumes "iteration_order s o1" and "iteration_order s o2"
  shows "(\<exists>l1. ListStatementsByPrincipal X s o1 p = Inr l1) \<longleftrightarrow>
         (\<exists>l2. ListStatementsByPrincipal X s o2 p = Inr l2)"
    and "ListStatementsByPrincipal X s o1 p = Inr l1 \<Longrightarrow>
         ListStatementsByPrincipal X s o2 p = Inr l2 \<Longrightarrow> set l1 = set l2 \<and> set l1 \<subseteq> ran (statements s)"
proof -
  show "(\<exists>l1. ListStatementsByPrincipal X s o1 p = Inr l1) \<longleftrightarrow>
         (\<exists>l2. ListStatementsByPrincipal X s o2 p = Inr l2)"
    by (simp add: ListStatementsByPrincipal_def statementsLoop_Inr_iff
        set_range_statements[OF assms(1)] set_range_statements[OF assms(2)])
  show "set l1 = set l2 \<and> set l1 \<subseteq> ran (statements s)"
    if "ListStatementsByPrincipal X s o1 p = Inr l1" "ListStatementsByPrincipal X s o2 p = Inr l2"
    using that
    by (auto simp: ListStatementsByPrincipal_def statementsLoop_Inr_iff
        set_range_statements[OF assms(1)] set_range_statements[OF assms(2)])
qed

subsection \<open>Unfolding the examples of the expansion\<close>

lemmas expansion_defs =
  moderatorStatement_def analystDenyStatement_def analystBadConditionStatement_def
  markDenyStatement_def example_store_def example_storage_def unavailable_for_def
  example_resolver_def example_expanding_def NewExpandingEvaluator_def
  ExpandingEvaluator_Evaluate_def Let_def Evaluate_eq ListStatementsByPrincipal_def
  range_statements_def SaveStatement_def NewInMemoryStorage_def
  ResolvePrincipals_def HasPrefix_def AddRoleMapping_def NewInMemoryPrincipalResolver_def
  explicit_def applies_def

subsection \<open>C1: deny overrides allow\<close>

text \<open>
  C1, amended. Whenever the list that storage returns holds a Deny statement and an Allow
  statement that both match the request on principal, action and resource and whose
  conditions all evaluate to true, \<open>Evaluate\<close> returns a Response (no error) with effect
  Deny whose Decider is the ID of a Deny statement of the list that matches the request
  on principal, action and resource and whose conditions all evaluate to true or fail to
  evaluate (in the second case the evaluator denies on the failure). The list is
  arbitrary, so the result holds for every order of the statements; the Allow statement
  plays no part in the proof.
\<close>

theorem deny_overrides_allow:
  assumes "storage (Principal req) = Inr stmts"
    and "d \<in> set stmts" and "Statement.Effect d = EffectDeny"
    and "principalMatches X (Principals d) (Principal req)"
    and "actionMatches X (Actions d) (Action req)"
    and "resourceMatches X (Resources d) (Resource req)"
    and "\<forall>c\<in>set (Conditions d). Condition_Evaluate X c req = Inr True"
    and "a \<in> set stmts" and "Statement.Effect a = EffectAllow"
    and "principalMatches X (Principals a) (Principal req)"
    and "actionMatches X (Actions a) (Action req)"
    and "resourceMatches X (Resources a) (Resource req)"
    and "\<forall>c\<in>set (Conditions a). Condition_Evaluate X c req = Inr True"
  shows "\<exists>r d'. Evaluate X storage req = Inr r \<and> Response.Effect r = EffectDeny \<and>
           Decider r = Some (ID d') \<and> d' \<in> set stmts \<and> Statement.Effect d' = EffectDeny \<and>
           principalMatches X (Principals d') (Principal req) \<and>
           actionMatches X (Actions d') (Action req) \<and>
           resourceMatches X (Resources d') (Resource req) \<and>
           allConditionsMet X (Conditions d') req \<noteq> Inr False"
proof -
  let ?ds = "filterStatementsByEffect stmts EffectDeny"
  have dm: "statementMatches X d req = Inr True"
    using assms(4-7) by (simp add: statementMatches_True_iff allConditionsMet_True_iff)
  have "d \<in> set ?ds"
    using assms(2,3) by (simp add: filterStatementsByEffect_def)
  with dm have "\<not> (\<forall>x\<in>set ?ds. statementMatches X x req = Inr False)"
    by force
  then have "denyLoop X ?ds req \<noteq> None"
    by (simp only: denyLoop_None_iff not_False_eq_True)
  then obtain r where r: "denyLoop X ?ds req = Some r" by auto
  from denyLoop_Some[OF r] obtain d' where d': "d' \<in> set ?ds"
    "statementMatches X d' req \<noteq> Inr False" "Response.Effect r = EffectDeny"
    "Decider r = Some (ID d')" by auto
  have ev: "Evaluate X storage req = Inr r"
    using assms(1,2) r by (auto simp: Evaluate_eq)
  from d'(1) have "d' \<in> set stmts" "Statement.Effect d' = EffectDeny"
    by (simp_all add: filterStatementsByEffect_def)
  with ev d' statementMatches_not_False[OF d'(2)] show ?thesis by blast
qed

theorem deny_overrides_allow_witness:
  "\<exists>r d'.
     Evaluate example_X
       (\<lambda>p. Inr [example_statement ''allow-read'' EffectAllow [''user:1''] [''read''] [''document:1'']
                    [\<lparr>Condition.Name = ''Always'', Expression = ''true''\<rparr>],
                  example_statement ''deny-read'' EffectDeny [''user:*''] [''read''] [''document:1'']
                    [\<lparr>Condition.Name = ''Always'', Expression = ''true''\<rparr>]])
       (example_request ''user:1'' ''read'' ''document:1'') = Inr r \<and>
     Response.Effect r = EffectDeny \<and> Decider r = Some (ID d') \<and>
     d' = example_statement ''deny-read'' EffectDeny [''user:*''] [''read''] [''document:1'']
            [\<lparr>Condition.Name = ''Always'', Expression = ''true''\<rparr>]"
proof -
  let ?A = "example_statement ''allow-read'' EffectAllow [''user:1''] [''read''] [''document:1'']
              [\<lparr>Condition.Name = ''Always'', Expression = ''true''\<rparr>]"
  let ?D = "example_statement ''deny-read'' EffectDeny [''user:*''] [''read''] [''document:1'']
              [\<lparr>Condition.Name = ''Always'', Expression = ''true''\<rparr>]"
  let ?req = "example_request ''user:1'' ''read'' ''document:1''"
  have "\<exists>r d'. Evaluate example_X (\<lambda>p. Inr [?A, ?D]) ?req = Inr r \<and>
          Response.Effect r = EffectDeny \<and> Decider r = Some (ID d') \<and> d' \<in> set [?A, ?D] \<and>
          Statement.Effect d' = EffectDeny \<and>
          principalMatches example_X (Principals d') (Principal ?req) \<and>
          actionMatches example_X (Actions d') (Action ?req) \<and>
          resourceMatches example_X (Resources d') (Resource ?req) \<and>
          allConditionsMet example_X (Conditions d') ?req \<noteq> Inr False"
    by (rule deny_overrides_allow[where d = ?D and a = ?A]) (simp_all add: example_defs)
  then obtain r d' where *: "Evaluate example_X (\<lambda>p. Inr [?A, ?D]) ?req = Inr r"
    "Response.Effect r = EffectDeny" "Decider r = Some (ID d')" "d' \<in> set [?A, ?D]"
    "Statement.Effect d' = EffectDeny" by blast
  from *(4,5) have "d' = ?D" by (auto simp: example_defs)
  with * show ?thesis by blast
qed

text \<open>
  C1 as stated fails when a Deny statement that comes first matches the request on
  principal, action and resource and its condition fails to evaluate: the evaluator
  returns at that statement, so the Decider is \<^verbatim>\<open>deny-bad-cond\<close>, a statement whose
  conditions do not all evaluate to true, and not the matching \<^verbatim>\<open>deny-read\<close>.
\<close>

theorem failing_deny_statement_is_the_decider:
  "statementMatches example_X
     (example_statement ''deny-read'' EffectDeny [''user:1''] [''read''] [''document:1''] [])
     (example_request ''user:1'' ''read'' ''document:1'') = Inr True \<and>
   statementMatches example_X
     (example_statement ''allow-read'' EffectAllow [''user:1''] [''read''] [''document:1''] [])
     (example_request ''user:1'' ''read'' ''document:1'') = Inr True \<and>
   allConditionsMet example_X
     [\<lparr>Condition.Name = ''BadCond'', Expression = ''invalid syntax''\<rparr>]
     (example_request ''user:1'' ''read'' ''document:1'') =
     Inl (WrapError (''failed to evaluate condition '' @ example_Quote ''BadCond'' @ '': '')
            (ErrorString ''unexpected token'')) \<and>
   Evaluate example_X
     (\<lambda>p. Inr [example_statement ''deny-bad-cond'' EffectDeny [''user:1''] [''read''] [''document:1'']
                  [\<lparr>Condition.Name = ''BadCond'', Expression = ''invalid syntax''\<rparr>],
                example_statement ''deny-read'' EffectDeny [''user:1''] [''read''] [''document:1''] [],
                example_statement ''allow-read'' EffectAllow [''user:1''] [''read''] [''document:1''] []])
     (example_request ''user:1'' ''read'' ''document:1'') =
     Inr \<lparr>Effect = EffectDeny,
          Message = ''failed to evaluate condition for deny statement '' @
                    example_Quote ''deny-bad-cond'' @ '': failed to evaluate condition '' @
                    example_Quote ''BadCond'' @ '': unexpected token'',
          Decider = Some ''deny-bad-cond''\<rparr>"
  by (simp add: Evaluate_eq example_defs)

subsection \<open>C2: a Decider exactly when a statement decided\<close>

text \<open>
  C2. With an empty list from storage the decision evaluator returns Deny with no Decider
  and the first default message; with a list of which no statement applies it returns
  Deny with no Decider and the second default message. In general its Response has a
  Decider exactly when some statement of the list applies to the request, and the Decider
  is then the ID of such a statement. The expanding evaluator always returns a Response,
  which has a Decider exactly when the resolver succeeded, every evaluation for a resolved
  principal returned a Response, and one of these Responses was an explicit Deny or an
  explicit Allow (so its two error Responses and its default have none).
\<close>

theorem decider_iff_explicit:
  "(storage (Principal req) = Inr [] \<longrightarrow>
      Evaluate X storage req =
        Inr \<lparr>Effect = EffectDeny,
             Message = ''no applicable statements found, access denied by default'',
             Decider = None\<rparr>) \<and>
   (storage (Principal req) = Inr stmts \<and> stmts \<noteq> [] \<and> (\<forall>s\<in>set stmts. \<not> applies X s req) \<longrightarrow>
      Evaluate X storage req =
        Inr \<lparr>Effect = EffectDeny,
             Message = ''no matching statement found, access denied by default'',
             Decider = None\<rparr>) \<and>
   (storage (Principal req) = Inr stmts \<and> Evaluate X storage req = Inr r \<longrightarrow>
      (Decider r \<noteq> None \<longleftrightarrow> (\<exists>s\<in>set stmts. applies X s req)) \<and>
      (\<forall>i. Decider r = Some i \<longrightarrow> (\<exists>s\<in>set stmts. applies X s req \<and> ID s = i))) \<and>
   (\<exists>r'. ExpandingEvaluator_Evaluate e req' = Inr r' \<and>
      (Decider r' \<noteq> None \<longleftrightarrow>
         (\<exists>ps. resolver e (Principal req') = Inr ps \<and>
            (\<forall>p\<in>set ps. \<exists>response. baseEvaluator e (req'\<lparr>Principal := p\<rparr>) = Inr response) \<and>
            (\<exists>p\<in>set ps. explicit EffectDeny (baseEvaluator e) req' p \<or>
                         explicit EffectAllow (baseEvaluator e) req' p))))"
proof (intro conjI impI)
  assume "storage (Principal req) = Inr []"
  then show "Evaluate X storage req =
        Inr \<lparr>Effect = EffectDeny,
             Message = ''no applicable statements found, access denied by default'',
             Decider = None\<rparr>"
    by (simp add: Evaluate_eq)
next
  assume "storage (Principal req) = Inr stmts \<and> stmts \<noteq> [] \<and> (\<forall>s\<in>set stmts. \<not> applies X s req)"
  then show "Evaluate X storage req =
        Inr \<lparr>Effect = EffectDeny,
             Message = ''no matching statement found, access denied by default'',
             Decider = None\<rparr>"
    using Evaluate_not_applies[where storage = storage and req = req] by blast
next
  assume a: "storage (Principal req) = Inr stmts \<and> Evaluate X storage req = Inr r"
  then show "Decider r \<noteq> None \<longleftrightarrow> (\<exists>s\<in>set stmts. applies X s req)"
    using Evaluate_Decider[where storage = storage and req = req] by blast
  from a show "\<forall>i. Decider r = Some i \<longrightarrow> (\<exists>s\<in>set stmts. applies X s req \<and> ID s = i)"
    using Evaluate_Decider[where storage = storage and req = req] by blast
next
  from Expanding_total obtain r' where r': "ExpandingEvaluator_Evaluate e req' = Inr r'" by blast
  with Expanding_Decider[OF r'] show "\<exists>r'. ExpandingEvaluator_Evaluate e req' = Inr r' \<and>
      (Decider r' \<noteq> None \<longleftrightarrow>
         (\<exists>ps. resolver e (Principal req') = Inr ps \<and>
            (\<forall>p\<in>set ps. \<exists>response. baseEvaluator e (req'\<lparr>Principal := p\<rparr>) = Inr response) \<and>
            (\<exists>p\<in>set ps. explicit EffectDeny (baseEvaluator e) req' p \<or>
                         explicit EffectAllow (baseEvaluator e) req' p)))"
    by blast
qed

theorem decider_iff_explicit_witness:
  "Evaluate example_X (\<lambda>p. Inr []) (example_request ''user:1'' ''read'' ''document:1'') =
     Inr \<lparr>Effect = EffectDeny,
          Message = ''no applicable statements found, access denied by default'',
          Decider = None\<rparr> \<and>
   Evaluate example_X
     (\<lambda>p. Inr [example_statement ''allow-write'' EffectAllow [''user:1''] [''write''] [''document:1''] []])
     (example_request ''user:1'' ''read'' ''document:1'') =
     Inr \<lparr>Effect = EffectDeny,
          Message = ''no matching statement found, access denied by default'',
          Decider = None\<rparr> \<and>
   (\<exists>r. Evaluate example_X
          (\<lambda>p. Inr [example_statement ''allow-write'' EffectAllow [''user:1''] [''write''] [''document:1''] [],
                     example_statement ''allow-read'' EffectAllow [''user:1''] [''read''] [''document:1''] []])
          (example_request ''user:1'' ''read'' ''document:1'') = Inr r \<and>
        Decider r = Some ''allow-read'') \<and>
   (\<exists>r'. ExpandingEvaluator_Evaluate (example_expanding (example_storage moderatorStatement analystDenyStatement))
           (example_request ''users/mark'' ''invoice.download'' ''invoices/238423684'') = Inr r' \<and>
         Decider r' \<noteq> None)"
proof -
  let ?W = "example_statement ''allow-write'' EffectAllow [''user:1''] [''write''] [''document:1''] []"
  let ?A = "example_statement ''allow-read'' EffectAllow [''user:1''] [''read''] [''document:1''] []"
  let ?req = "example_request ''user:1'' ''read'' ''document:1''"
  let ?e = "example_expanding (example_storage moderatorStatement analystDenyStatement)"
  let ?req' = "example_request ''users/mark'' ''invoice.download'' ''invoices/238423684''"
  let ?r = "\<lparr>Effect = EffectAllow, Message = ''allowed by statement '' @ example_Quote ''allow-read'',
             Decider = Some ''allow-read''\<rparr>"
  note one = decider_iff_explicit[where storage = "\<lambda>p. Inr []" and req = ?req and X = example_X
      and stmts = "[]" and e = ?e and req' = ?req']
  note two = decider_iff_explicit[where storage = "\<lambda>p. Inr [?W]" and req = ?req and X = example_X
      and stmts = "[?W]" and e = ?e and req' = ?req']
  note three = decider_iff_explicit[where storage = "\<lambda>p. Inr [?W, ?A]" and req = ?req and X = example_X
      and stmts = "[?W, ?A]" and r = ?r and e = ?e and req' = ?req']
  have a: "Evaluate example_X (\<lambda>p. Inr []) ?req =
     Inr \<lparr>Effect = EffectDeny,
          Message = ''no applicable statements found, access denied by default'',
          Decider = None\<rparr>"
    using one by simp
  have "\<forall>s\<in>set [?W]. \<not> applies example_X s ?req"
    by (simp add: applies_def example_defs)
  then have b: "Evaluate example_X (\<lambda>p. Inr [?W]) ?req =
     Inr \<lparr>Effect = EffectDeny,
          Message = ''no matching statement found, access denied by default'',
          Decider = None\<rparr>"
    using two by simp
  have ev: "Evaluate example_X (\<lambda>p. Inr [?W, ?A]) ?req = Inr ?r"
    by (simp add: Evaluate_eq example_defs)
  with three have "\<forall>i. Decider ?r = Some i \<longrightarrow>
      (\<exists>s\<in>set [?W, ?A]. applies example_X s ?req \<and> ID s = i)"
    by simp
  with ev have c: "\<exists>r. Evaluate example_X (\<lambda>p. Inr [?W, ?A]) ?req = Inr r \<and> Decider r = Some ''allow-read''"
    by simp
  from one obtain r' where r': "ExpandingEvaluator_Evaluate ?e ?req' = Inr r'"
    "Decider r' \<noteq> None \<longleftrightarrow>
         (\<exists>ps. resolver ?e (Principal ?req') = Inr ps \<and>
            (\<forall>p\<in>set ps. \<exists>response. baseEvaluator ?e (?req'\<lparr>Principal := p\<rparr>) = Inr response) \<and>
            (\<exists>p\<in>set ps. explicit EffectDeny (baseEvaluator ?e) ?req' p \<or>
                         explicit EffectAllow (baseEvaluator ?e) ?req' p))"
    by blast
  have "\<exists>ps. resolver ?e (Principal ?req') = Inr ps \<and>
            (\<forall>p\<in>set ps. \<exists>response. baseEvaluator ?e (?req'\<lparr>Principal := p\<rparr>) = Inr response) \<and>
            (\<exists>p\<in>set ps. explicit EffectDeny (baseEvaluator ?e) ?req' p \<or>
                         explicit EffectAllow (baseEvaluator ?e) ?req' p)"
    by (simp add: expansion_defs example_defs)
  with r' have d: "\<exists>r'. ExpandingEvaluator_Evaluate ?e ?req' = Inr r' \<and> Decider r' \<noteq> None"
    by blast
  from a b c d show ?thesis by blast
qed

subsection \<open>C3: the merge over the resolved principals\<close>

text \<open>
  C3, amended. When the resolver succeeds and the wrapped evaluator returns a Response for
  every resolved principal, the loop runs to its end: the Responses it collected are those
  of the wrapped evaluator for the resolved principals, one for each, in order. If some
  resolved principal got an explicit Deny (effect Deny with a Decider), the result is Deny
  with Decider \<^verbatim>\<open>principal_expansion:\<close> followed by the first such principal, whatever
  explicit Allow an earlier principal got; else if some got an explicit Allow, the result
  is Allow with Decider \<^verbatim>\<open>principal_expansion:\<close> followed by the first such principal;
  else it is Deny with no Decider and the default message of the expansion.
  (\<open>find P ps\<close> is the first element of \<open>ps\<close> that satisfies \<open>P\<close>.)
\<close>

theorem expansion_merge:
  assumes "resolver e (Principal req) = Inr ps"
    and "\<forall>p\<in>set ps. \<exists>response. baseEvaluator e (req\<lparr>Principal := p\<rparr>) = Inr response"
  shows "(\<exists>st. expandLoop e req ps
                 \<lparr>responses = [], allowingPrincipal = None, denyingPrincipal = None\<rparr> = Inr st \<and>
               map Inr (responses st) = map (\<lambda>p. baseEvaluator e (req\<lparr>Principal := p\<rparr>)) ps) \<and>
         (\<forall>dp. find (explicit EffectDeny (baseEvaluator e) req) ps = Some dp \<longrightarrow>
            ExpandingEvaluator_Evaluate e req =
              Inr \<lparr>Effect = EffectDeny, Message = ''access denied for principal '' @ dp,
                   Decider = Some (''principal_expansion:'' @ dp)\<rparr>) \<and>
         (\<forall>ap. find (explicit EffectDeny (baseEvaluator e) req) ps = None \<and>
               find (explicit EffectAllow (baseEvaluator e) req) ps = Some ap \<longrightarrow>
            ExpandingEvaluator_Evaluate e req =
              Inr \<lparr>Effect = EffectAllow, Message = ''access allowed for principal '' @ ap,
                   Decider = Some (''principal_expansion:'' @ ap)\<rparr>) \<and>
         (find (explicit EffectDeny (baseEvaluator e) req) ps = None \<and>
          find (explicit EffectAllow (baseEvaluator e) req) ps = None \<longrightarrow>
            ExpandingEvaluator_Evaluate e req =
              Inr \<lparr>Effect = EffectDeny,
                   Message = ''no matching statements found for any expanded principal, access denied by default'',
                   Decider = None\<rparr>)"
proof -
  from expandLoop_ok[OF assms(2), of "\<lparr>responses = [], allowingPrincipal = None, denyingPrincipal = None\<rparr>"]
  have once: "\<exists>st. expandLoop e req ps
                 \<lparr>responses = [], allowingPrincipal = None, denyingPrincipal = None\<rparr> = Inr st \<and>
               map Inr (responses st) = map (\<lambda>p. baseEvaluator e (req\<lparr>Principal := p\<rparr>)) ps"
    by auto
  have m: "ExpandingEvaluator_Evaluate e req = Inr (merged (baseEvaluator e) req ps)"
    using assms by (rule Expanding_merged)
  show ?thesis
    using once by (simp add: m merged_def)
qed

theorem expansion_merge_witness:
  "ExpandingEvaluator_Evaluate (example_expanding (example_storage moderatorStatement analystDenyStatement))
     (example_request ''users/mark'' ''invoice.download'' ''invoices/238423684'') =
     Inr \<lparr>Effect = EffectDeny, Message = ''access denied for principal roles/analyst'',
          Decider = Some ''principal_expansion:roles/analyst''\<rparr> \<and>
   ExpandingEvaluator_Evaluate (example_expanding (example_storage moderatorStatement analystDenyStatement))
     (example_request ''users/mark'' ''invoice.download'' ''invoices/999999'') =
     Inr \<lparr>Effect = EffectAllow, Message = ''access allowed for principal roles/moderator'',
          Decider = Some ''principal_expansion:roles/moderator''\<rparr> \<and>
   ExpandingEvaluator_Evaluate (example_expanding (example_storage moderatorStatement analystDenyStatement))
     (example_request ''users/mark'' ''invoice.delete'' ''invoices/999999'') =
     Inr \<lparr>Effect = EffectDeny,
          Message = ''no matching statements found for any expanded principal, access denied by default'',
          Decider = None\<rparr>"
proof -
  let ?e = "example_expanding (example_storage moderatorStatement analystDenyStatement)"
  let ?ps = "[''users/mark'', ''roles/moderator'', ''roles/analyst'']"
  let ?r1 = "example_request ''users/mark'' ''invoice.download'' ''invoices/238423684''"
  let ?r2 = "example_request ''users/mark'' ''invoice.download'' ''invoices/999999''"
  let ?r3 = "example_request ''users/mark'' ''invoice.delete'' ''invoices/999999''"
  have res: "resolver ?e (Principal r) = Inr ?ps" if "Principal r = ''users/mark''" for r
    using that by (simp add: expansion_defs)
  have f1: "find (explicit EffectDeny (baseEvaluator ?e) ?r1) ?ps = Some ''roles/analyst''"
    by (simp add: expansion_defs example_defs)
  have f2: "find (explicit EffectDeny (baseEvaluator ?e) ?r2) ?ps = None \<and>
            find (explicit EffectAllow (baseEvaluator ?e) ?r2) ?ps = Some ''roles/moderator''"
    by (simp add: expansion_defs example_defs)
  have f3: "find (explicit EffectDeny (baseEvaluator ?e) ?r3) ?ps = None \<and>
            find (explicit EffectAllow (baseEvaluator ?e) ?r3) ?ps = None"
    by (simp add: expansion_defs example_defs)
  have ok: "\<forall>p\<in>set ?ps. \<exists>response. baseEvaluator ?e (r\<lparr>Principal := p\<rparr>) = Inr response" for r
    by (simp add: expansion_defs example_defs split: option.split)
  have one: "ExpandingEvaluator_Evaluate ?e ?r1 =
     Inr \<lparr>Effect = EffectDeny, Message = ''access denied for principal roles/analyst'',
          Decider = Some ''principal_expansion:roles/analyst''\<rparr>"
    using expansion_merge[where e = ?e and req = ?r1 and ps = ?ps, OF res ok] f1
    by (simp add: example_request_def)
  have two: "ExpandingEvaluator_Evaluate ?e ?r2 =
     Inr \<lparr>Effect = EffectAllow, Message = ''access allowed for principal roles/moderator'',
          Decider = Some ''principal_expansion:roles/moderator''\<rparr>"
    using expansion_merge[where e = ?e and req = ?r2 and ps = ?ps, OF res ok] f2
    by (simp add: example_request_def)
  have three: "ExpandingEvaluator_Evaluate ?e ?r3 =
     Inr \<lparr>Effect = EffectDeny,
          Message = ''no matching statements found for any expanded principal, access denied by default'',
          Decider = None\<rparr>"
    using expansion_merge[where e = ?e and req = ?r3 and ps = ?ps, OF res ok] f3
    by (simp add: example_request_def)
  from one two three show ?thesis by blast
qed

text \<open>
  C3 as stated, for every run, fails: the loop returns at the first resolved principal for
  which the wrapped evaluator returns an error. Here the user is explicitly denied by the
  statement \<^verbatim>\<open>deny-mark\<close>, storage then fails for the role \<^verbatim>\<open>roles/moderator\<close>, and the
  result is a Deny with no Decider instead of the Decider
  \<^verbatim>\<open>principal_expansion:users/mark\<close>; the third principal is never evaluated.
\<close>

theorem expansion_stops_at_failed_evaluation:
  "example_resolver ''users/mark'' = Inr [''users/mark'', ''roles/moderator'', ''roles/analyst''] \<and>
   Evaluate example_X
     (unavailable_for ''roles/moderator'' (example_storage markDenyStatement analystBadConditionStatement))
     ((example_request ''users/mark'' ''invoice.download'' ''invoices/238423684'')
        \<lparr>Principal := ''users/mark''\<rparr>) =
     Inr \<lparr>Effect = EffectDeny, Message = ''denied by statement '' @ example_Quote ''deny-mark'',
          Decider = Some ''deny-mark''\<rparr> \<and>
   ExpandingEvaluator_Evaluate
     (example_expanding
        (unavailable_for ''roles/moderator'' (example_storage markDenyStatement analystBadConditionStatement)))
     (example_request ''users/mark'' ''invoice.download'' ''invoices/238423684'') =
     Inr \<lparr>Effect = EffectDeny,
          Message = ''evaluation error for principal roles/moderator: failed to list statements: connection refused'',
          Decider = None\<rparr>"
  by (simp add: expansion_defs example_defs)

subsection \<open>C4: a failing condition of a Deny statement denies\<close>

text \<open>
  C4. Let \<open>s\<close> be a Deny statement of the list that storage returns, matching the request
  on principal, action and resource, and let the evaluation of one of its conditions
  fail, at compilation or at run time, after the conditions before it evaluated to true.
  Then \<open>Evaluate\<close> returns a Response and no error, with effect Deny and a Decider. When
  the loop reaches \<open>s\<close>, that is when every Deny statement before \<open>s\<close> returned
  (false, nil) from \<open>statementMatches\<close>, the Response is returned at \<open>s\<close>: its Decider is
  the ID of \<open>s\<close>, its message names \<open>s\<close>, the condition and the text of the underlying
  error, the statements after \<open>s\<close> play no part, and nothing is printed because the
  Allow loop never runs.
\<close>

theorem deny_condition_error_fails_closed:
  assumes "storage (Principal req) = Inr stmts"
    and "filterStatementsByEffect stmts EffectDeny = pre @ s # post"
    and "principalMatches X (Principals s) (Principal req)"
    and "actionMatches X (Actions s) (Action req)"
    and "resourceMatches X (Resources s) (Resource req)"
    and "Conditions s = cs @ c # cs'"
    and "\<forall>c'\<in>set cs. Condition_Evaluate X c' req = Inr True"
    and "expr_Compile X (Expression c) = Inl err \<or>
         (\<exists>program. expr_Compile X (Expression c) = Inr program \<and> expr_Run X program req = Inl err)"
  shows "(\<exists>r. Evaluate X storage req = Inr r \<and> Response.Effect r = EffectDeny \<and> Decider r \<noteq> None) \<and>
         ((\<forall>d\<in>set pre. statementMatches X d req = Inr False) \<longrightarrow>
            Evaluate_io X storage req =
              ([], Inr \<lparr>Effect = EffectDeny,
                        Message = ''failed to evaluate condition for deny statement '' @
                                  strconv_Quote X (ID s) @ '': failed to evaluate condition '' @
                                  strconv_Quote X (Condition.Name c) @ '': '' @ Error err,
                        Decider = Some (ID s)\<rparr>))"
proof -
  let ?ds = "filterStatementsByEffect stmts EffectDeny"
  let ?e = "WrapError (''failed to evaluate condition '' @ strconv_Quote X (Condition.Name c) @ '': '') err"
  have ne: "stmts \<noteq> []" using filter_split_nonempty[OF assms(2)] by simp
  have "Condition_Evaluate X c req = Inl err"
    using assms(8) by (simp add: Condition_Evaluate_Inl_iff)
  then have "allConditionsMet X (Conditions s) req = Inl ?e"
    using assms(6,7) by (simp add: allConditionsMet_error)
  then have sm: "statementMatches X s req = Inl ?e"
    using assms(3-5) by (simp add: statementMatches_Inl_iff)
  have "s \<in> set ?ds" using assms(2) by simp
  with sm have "\<not> (\<forall>x\<in>set ?ds. statementMatches X x req = Inr False)" by force
  then have "denyLoop X ?ds req \<noteq> None"
    by (simp only: denyLoop_None_iff not_False_eq_True)
  then obtain r where r: "denyLoop X ?ds req = Some r" by auto
  from denyLoop_Some[OF r] have "Response.Effect r = EffectDeny" "Decider r \<noteq> None" by auto
  moreover have "Evaluate X storage req = Inr r"
    using Evaluate_io_deny[where storage = storage and req = req, OF assms(1) ne r] by (simp add: Evaluate_def)
  ultimately have general: "\<exists>r. Evaluate X storage req = Inr r \<and> Response.Effect r = EffectDeny \<and> Decider r \<noteq> None"
    by blast
  have first: "Evaluate_io X storage req =
        ([], Inr \<lparr>Effect = EffectDeny,
                  Message = ''failed to evaluate condition for deny statement '' @
                            strconv_Quote X (ID s) @ '': failed to evaluate condition '' @
                            strconv_Quote X (Condition.Name c) @ '': '' @ Error err,
                  Decider = Some (ID s)\<rparr>)"
    if pre: "\<forall>d\<in>set pre. statementMatches X d req = Inr False"
  proof -
    have "denyLoop X ?ds req = denyLoop X (s # post) req"
      using denyLoop_skip[OF pre] assms(2) by simp
    also have "\<dots> = Some \<lparr>Effect = EffectDeny,
                  Message = ''failed to evaluate condition for deny statement '' @
                            strconv_Quote X (ID s) @ '': failed to evaluate condition '' @
                            strconv_Quote X (Condition.Name c) @ '': '' @ Error err,
                  Decider = Some (ID s)\<rparr>"
      using sm by simp
    finally show ?thesis using Evaluate_io_deny[where storage = storage and req = req, OF assms(1) ne] by simp
  qed
  from general first show ?thesis by blast
qed

theorem deny_condition_error_fails_closed_witness:
  "Evaluate_io example_X
     (\<lambda>p. Inr [example_statement ''allow-read'' EffectAllow [''user:1''] [''read''] [''document:1''] [],
                example_statement ''deny-write'' EffectDeny [''user:1''] [''write''] [''document:1''] [],
                example_statement ''deny-bad-cond'' EffectDeny [''user:1''] [''read''] [''document:1'']
                  [\<lparr>Condition.Name = ''Always'', Expression = ''true''\<rparr>,
                   \<lparr>Condition.Name = ''BadCond'', Expression = ''invalid syntax''\<rparr>],
                example_statement ''deny-read'' EffectDeny [''user:1''] [''read''] [''document:1''] []])
     (example_request ''user:1'' ''read'' ''document:1'') =
   ([], Inr \<lparr>Effect = EffectDeny,
             Message = ''failed to evaluate condition for deny statement '' @
                       example_Quote ''deny-bad-cond'' @ '': failed to evaluate condition '' @
                       example_Quote ''BadCond'' @ '': unexpected token'',
             Decider = Some ''deny-bad-cond''\<rparr>)"
proof -
  let ?A = "example_statement ''allow-read'' EffectAllow [''user:1''] [''read''] [''document:1''] []"
  let ?W = "example_statement ''deny-write'' EffectDeny [''user:1''] [''write''] [''document:1''] []"
  let ?B = "example_statement ''deny-bad-cond'' EffectDeny [''user:1''] [''read''] [''document:1'']
              [\<lparr>Condition.Name = ''Always'', Expression = ''true''\<rparr>,
               \<lparr>Condition.Name = ''BadCond'', Expression = ''invalid syntax''\<rparr>]"
  let ?D = "example_statement ''deny-read'' EffectDeny [''user:1''] [''read''] [''document:1''] []"
  let ?req = "example_request ''user:1'' ''read'' ''document:1''"
  have "(\<exists>r. Evaluate example_X (\<lambda>p. Inr [?A, ?W, ?B, ?D]) ?req = Inr r \<and>
            Response.Effect r = EffectDeny \<and> Decider r \<noteq> None) \<and>
        ((\<forall>d\<in>set [?W]. statementMatches example_X d ?req = Inr False) \<longrightarrow>
           Evaluate_io example_X (\<lambda>p. Inr [?A, ?W, ?B, ?D]) ?req =
             ([], Inr \<lparr>Effect = EffectDeny,
                       Message = ''failed to evaluate condition for deny statement '' @
                                 strconv_Quote example_X (ID ?B) @ '': failed to evaluate condition '' @
                                 strconv_Quote example_X
                                   (Condition.Name \<lparr>Condition.Name = ''BadCond'', Expression = ''invalid syntax''\<rparr>) @
                                 '': '' @ Error (ErrorString ''unexpected token''),
                       Decider = Some (ID ?B)\<rparr>))"
    by (rule deny_condition_error_fails_closed[where stmts = "[?A, ?W, ?B, ?D]" and post = "[?D]"
          and cs = "[\<lparr>Condition.Name = ''Always'', Expression = ''true''\<rparr>]" and cs' = "[]"])
       (simp_all add: example_defs)
  then show ?thesis by (simp add: example_defs)
qed

subsection \<open>C5: a failing condition of an Allow statement is skipped\<close>

text \<open>
  C5. Let \<open>a\<close> be an Allow statement of the list that storage returns, matching the
  request on principal, action and resource, whose condition evaluation fails. Then
  \<open>Evaluate\<close> returns a Response and no error; the Response is the one the evaluator
  returns for the list without \<open>a\<close> (as long as that list is not empty), so the Allow
  statements after \<open>a\<close> are still evaluated; and when no other statement applies (every
  other Deny statement returns (false, nil) from \<open>statementMatches\<close> and no other Allow
  statement returns (true, nil): \<open>applies\<close> above) the Response is the default Deny with no
  Decider and the message of the second default.
\<close>

theorem allow_condition_error_is_skipped:
  assumes "storage (Principal req) = Inr (pre @ a # post)"
    and "storage' (Principal req) = Inr (pre @ post)"
    and "Statement.Effect a = EffectAllow"
    and "principalMatches X (Principals a) (Principal req)"
    and "actionMatches X (Actions a) (Action req)"
    and "resourceMatches X (Resources a) (Resource req)"
    and "allConditionsMet X (Conditions a) req = Inl err"
  shows "(\<exists>r. Evaluate X storage req = Inr r) \<and>
         (pre @ post \<noteq> [] \<longrightarrow> Evaluate X storage req = Evaluate X storage' req) \<and>
         ((\<forall>s\<in>set (pre @ post). \<not> applies X s req) \<longrightarrow>
            Evaluate X storage req =
              Inr \<lparr>Effect = EffectDeny,
                   Message = ''no matching statement found, access denied by default'',
                   Decider = None\<rparr>)"
proof -
  have sm: "statementMatches X a req = Inl err"
    using assms(4-7) by (simp add: statementMatches_Inl_iff)
  have total: "\<exists>r. Evaluate X storage req = Inr r"
    using assms(1) by (rule Evaluate_total)
  have nd: "Statement.Effect a \<noteq> EffectDeny"
    using assms(3) by (simp add: Effect_distinct)
  have ds: "filterStatementsByEffect (pre @ a # post) EffectDeny =
            filterStatementsByEffect (pre @ post) EffectDeny"
    using nd by (simp add: filterStatementsByEffect_def)
  have as: "filterStatementsByEffect (pre @ a # post) EffectAllow =
            filterStatementsByEffect pre EffectAllow @ a # filterStatementsByEffect post EffectAllow"
           "filterStatementsByEffect (pre @ post) EffectAllow =
            filterStatementsByEffect pre EffectAllow @ filterStatementsByEffect post EffectAllow"
    using assms(3) by (simp_all add: filterStatementsByEffect_def)
  have al: "snd (allowLoop X (filterStatementsByEffect (pre @ a # post) EffectAllow) req) =
            snd (allowLoop X (filterStatementsByEffect (pre @ post) EffectAllow) req)"
    by (simp only: as allowLoop_remove[OF sm])
  have skip: "Evaluate X storage req = Evaluate X storage' req" if "pre @ post \<noteq> []"
  proof -
    have "Evaluate X storage req =
            (case denyLoop X (filterStatementsByEffect (pre @ post) EffectDeny) req of
               Some response \<Rightarrow> Inr response
             | None \<Rightarrow>
                 (case snd (allowLoop X (filterStatementsByEffect (pre @ post) EffectAllow) req) of
                    Some response \<Rightarrow> Inr response
                  | None \<Rightarrow>
                      Inr \<lparr>Effect = EffectDeny,
                           Message = ''no matching statement found, access denied by default'',
                           Decider = None\<rparr>))"
      using assms(1) by (simp add: Evaluate_eq ds al cong: option.case_cong)
    also have "\<dots> = Evaluate X storage' req"
      using assms(2) that by (auto simp: Evaluate_eq)
    finally show ?thesis .
  qed
  have dflt: "Evaluate X storage req =
        Inr \<lparr>Effect = EffectDeny,
             Message = ''no matching statement found, access denied by default'',
             Decider = None\<rparr>"
    if others: "\<forall>s\<in>set (pre @ post). \<not> applies X s req"
  proof (rule Evaluate_not_applies[where stmts = "pre @ a # post"])
    show "storage (Principal req) = Inr (pre @ a # post)" by (rule assms(1))
    show "pre @ a # post \<noteq> []" by simp
    have "\<not> applies X a req" using sm nd by (simp add: applies_def)
    with others show "\<forall>s\<in>set (pre @ a # post). \<not> applies X s req" by auto
  qed
  from total skip dflt show ?thesis by blast
qed

theorem allow_condition_error_is_skipped_witness:
  "Evaluate example_X
     (\<lambda>p. Inr [example_statement ''allow-write'' EffectAllow [''user:1''] [''write''] [''document:1''] [],
                example_statement ''allow-bad-cond'' EffectAllow [''user:1''] [''read''] [''document:1'']
                  [\<lparr>Condition.Name = ''BadCond'', Expression = ''invalid syntax''\<rparr>],
                example_statement ''allow-read'' EffectAllow [''user:1''] [''read''] [''document:1''] []])
     (example_request ''user:1'' ''read'' ''document:1'') =
   Inr \<lparr>Effect = EffectAllow,
        Message = ''allowed by statement '' @ example_Quote ''allow-read'',
        Decider = Some ''allow-read''\<rparr> \<and>
   Evaluate example_X
     (\<lambda>p. Inr [example_statement ''deny-write'' EffectDeny [''user:1''] [''write''] [''document:1''] [],
                example_statement ''allow-bad-cond'' EffectAllow [''user:1''] [''read''] [''document:1'']
                  [\<lparr>Condition.Name = ''BadCond'', Expression = ''invalid syntax''\<rparr>]])
     (example_request ''user:1'' ''read'' ''document:1'') =
   Inr \<lparr>Effect = EffectDeny,
        Message = ''no matching statement found, access denied by default'',
        Decider = None\<rparr>"
proof -
  let ?W = "example_statement ''allow-write'' EffectAllow [''user:1''] [''write''] [''document:1''] []"
  let ?B = "example_statement ''allow-bad-cond'' EffectAllow [''user:1''] [''read''] [''document:1'']
              [\<lparr>Condition.Name = ''BadCond'', Expression = ''invalid syntax''\<rparr>]"
  let ?A = "example_statement ''allow-read'' EffectAllow [''user:1''] [''read''] [''document:1''] []"
  let ?D = "example_statement ''deny-write'' EffectDeny [''user:1''] [''write''] [''document:1''] []"
  let ?req = "example_request ''user:1'' ''read'' ''document:1''"
  let ?err = "WrapError (''failed to evaluate condition '' @ example_Quote ''BadCond'' @ '': '')
                (ErrorString ''unexpected token'')"
  let ?dflt = "Inr \<lparr>Effect = EffectDeny,
                    Message = ''no matching statement found, access denied by default'',
                    Decider = None\<rparr> :: error + Response"
  have "(\<exists>r. Evaluate example_X (\<lambda>p. Inr [?W, ?B, ?A]) ?req = Inr r) \<and>
        ([?W] @ [?A] \<noteq> [] \<longrightarrow>
           Evaluate example_X (\<lambda>p. Inr [?W, ?B, ?A]) ?req =
           Evaluate example_X (\<lambda>p. Inr [?W, ?A]) ?req) \<and>
        ((\<forall>s\<in>set ([?W] @ [?A]). \<not> applies example_X s ?req) \<longrightarrow>
           Evaluate example_X (\<lambda>p. Inr [?W, ?B, ?A]) ?req = ?dflt)"
    by (rule allow_condition_error_is_skipped[where pre = "[?W]" and a = ?B and post = "[?A]" and err = ?err])
       (simp_all add: example_defs)
  then have "Evaluate example_X (\<lambda>p. Inr [?W, ?B, ?A]) ?req =
             Evaluate example_X (\<lambda>p. Inr [?W, ?A]) ?req"
    by simp
  also have "\<dots> = Inr \<lparr>Effect = EffectAllow,
                         Message = ''allowed by statement '' @ example_Quote ''allow-read'',
                         Decider = Some ''allow-read''\<rparr>"
    by (simp add: Evaluate_eq example_defs)
  finally have one: "Evaluate example_X (\<lambda>p. Inr [?W, ?B, ?A]) ?req =
      Inr \<lparr>Effect = EffectAllow,
           Message = ''allowed by statement '' @ example_Quote ''allow-read'',
           Decider = Some ''allow-read''\<rparr>" .
  have "(\<exists>r. Evaluate example_X (\<lambda>p. Inr [?D, ?B]) ?req = Inr r) \<and>
        ([?D] @ [] \<noteq> [] \<longrightarrow>
           Evaluate example_X (\<lambda>p. Inr [?D, ?B]) ?req =
           Evaluate example_X (\<lambda>p. Inr [?D]) ?req) \<and>
        ((\<forall>s\<in>set ([?D] @ []). \<not> applies example_X s ?req) \<longrightarrow>
           Evaluate example_X (\<lambda>p. Inr [?D, ?B]) ?req = ?dflt)"
    by (rule allow_condition_error_is_skipped[where pre = "[?D]" and a = ?B and post = "[]" and err = ?err])
       (simp_all add: example_defs)
  then have "(\<forall>s\<in>set ([?D] @ []). \<not> applies example_X s ?req) \<longrightarrow>
           Evaluate example_X (\<lambda>p. Inr [?D, ?B]) ?req = ?dflt"
    by (elim conjE)
  moreover have "\<forall>s\<in>set ([?D] @ []). \<not> applies example_X s ?req"
    by (simp add: applies_def example_defs)
  ultimately have two: "Evaluate example_X (\<lambda>p. Inr [?D, ?B]) ?req = ?dflt"
    by (rule mp)
  from one two show ?thesis by simp
qed

subsection \<open>C6: the two error channels\<close>

text \<open>
  C6. When storage fails, the decision evaluator returns an error that wraps the storage
  error, and no Response. When the resolver fails, the expanding evaluator returns a Deny
  Response with no Decider whose message carries the text of the error, and no error;
  likewise when the wrapped evaluator fails for a resolved principal, the first one in
  order for which it fails. In particular a storage failure under the expanding evaluator
  comes out as a Response whose message carries the text of the decision evaluator's
  error.
\<close>

theorem error_channels:
  "(storage (Principal req) = Inl err \<longrightarrow>
      Evaluate_io X storage req = ([], Inl (WrapError ''failed to list statements: '' err))) \<and>
   (resolver e (Principal req) = Inl err \<longrightarrow>
      ExpandingEvaluator_Evaluate e req =
        Inr \<lparr>Effect = EffectDeny,
             Message = ''failed to resolve principals: '' @ Error err,
             Decider = None\<rparr>) \<and>
   (resolver e (Principal req) = Inr (pre @ p # post) \<and>
    (\<forall>q\<in>set pre. \<exists>response. baseEvaluator e (req\<lparr>Principal := q\<rparr>) = Inr response) \<and>
    baseEvaluator e (req\<lparr>Principal := p\<rparr>) = Inl err \<longrightarrow>
      ExpandingEvaluator_Evaluate e req =
        Inr \<lparr>Effect = EffectDeny,
             Message = ''evaluation error for principal '' @ p @ '': '' @ Error err,
             Decider = None\<rparr>) \<and>
   (resolver e (Principal req) = Inr (pre @ p # post) \<and> baseEvaluator e = Evaluate X storage' \<and>
    (\<forall>q\<in>set pre. \<exists>stmts. storage' q = Inr stmts) \<and> storage' p = Inl err \<longrightarrow>
      ExpandingEvaluator_Evaluate e req =
        Inr \<lparr>Effect = EffectDeny,
             Message = ''evaluation error for principal '' @ p @
                       '': failed to list statements: '' @ Error err,
             Decider = None\<rparr>)"
  using Expanding_error[where e = e and req = req and pre = pre and p = p and post = post and err = err]
    Expanding_storage_error[where e = e and req = req and pre = pre and p = p and post = post
      and err = err and X = X and storage = storage']
  by (auto simp: Evaluate_io_def ExpandingEvaluator_Evaluate_def)

theorem error_channels_witness:
  "Evaluate_io example_X (unavailable_for ''user:1'' (\<lambda>p. Inr []))
     (example_request ''user:1'' ''read'' ''document:1'') =
     ([], Inl (WrapError ''failed to list statements: '' (ErrorString ''connection refused''))) \<and>
   ExpandingEvaluator_Evaluate
     (NewExpandingEvaluator (Evaluate example_X (example_storage moderatorStatement analystDenyStatement))
        (\<lambda>p. Inl (ErrorString ''directory unavailable'')))
     (example_request ''users/mark'' ''invoice.download'' ''invoices/238423684'') =
     Inr \<lparr>Effect = EffectDeny,
          Message = ''failed to resolve principals: directory unavailable'',
          Decider = None\<rparr> \<and>
   ExpandingEvaluator_Evaluate
     (example_expanding
        (unavailable_for ''roles/moderator'' (example_storage moderatorStatement analystDenyStatement)))
     (example_request ''users/mark'' ''invoice.download'' ''invoices/238423684'') =
     Inr \<lparr>Effect = EffectDeny,
          Message = ''evaluation error for principal roles/moderator: failed to list statements: connection refused'',
          Decider = None\<rparr>"
proof -
  let ?req = "example_request ''user:1'' ''read'' ''document:1''"
  let ?req' = "example_request ''users/mark'' ''invoice.download'' ''invoices/238423684''"
  let ?st = "example_storage moderatorStatement analystDenyStatement"
  let ?e1 = "NewExpandingEvaluator (Evaluate example_X ?st) (\<lambda>p. Inl (ErrorString ''directory unavailable''))"
  let ?e2 = "example_expanding (unavailable_for ''roles/moderator'' ?st)"
  have a: "Evaluate_io example_X (unavailable_for ''user:1'' (\<lambda>p. Inr [])) ?req =
     ([], Inl (WrapError ''failed to list statements: '' (ErrorString ''connection refused'')))"
    using error_channels[where storage = "unavailable_for ''user:1'' (\<lambda>p. Inr [])" and req = ?req
        and err = "ErrorString ''connection refused''" and X = example_X and e = ?e1
        and pre = "[]" and p = "[]" and post = "[]" and storage' = "\<lambda>p. Inr []"]
    by (simp add: unavailable_for_def example_defs)
  have b: "ExpandingEvaluator_Evaluate ?e1 ?req' =
     Inr \<lparr>Effect = EffectDeny,
          Message = ''failed to resolve principals: directory unavailable'',
          Decider = None\<rparr>"
    using error_channels[where e = ?e1 and req = ?req' and err = "ErrorString ''directory unavailable''"
        and storage = "\<lambda>p. Inr []" and X = example_X and pre = "[]" and p = "[]" and post = "[]"
        and storage' = "\<lambda>p. Inr []"]
    by (simp add: NewExpandingEvaluator_def)
  have "resolver ?e2 (Principal ?req') = Inr ([''users/mark''] @ ''roles/moderator'' # [''roles/analyst'']) \<and>
        baseEvaluator ?e2 = Evaluate example_X (unavailable_for ''roles/moderator'' ?st) \<and>
        (\<forall>q\<in>set [''users/mark'']. \<exists>stmts. unavailable_for ''roles/moderator'' ?st q = Inr stmts) \<and>
        unavailable_for ''roles/moderator'' ?st ''roles/moderator'' = Inl (ErrorString ''connection refused'')"
    by (simp add: expansion_defs example_defs)
  then have c: "ExpandingEvaluator_Evaluate ?e2 ?req' =
     Inr \<lparr>Effect = EffectDeny,
          Message = ''evaluation error for principal roles/moderator: failed to list statements: connection refused'',
          Decider = None\<rparr>"
    using error_channels[where e = ?e2 and req = ?req' and pre = "[''users/mark'']"
        and p = "''roles/moderator''" and post = "[''roles/analyst'']"
        and err = "ErrorString ''connection refused''" and X = example_X
        and storage' = "unavailable_for ''roles/moderator'' ?st" and storage = "\<lambda>p. Inr []"]
    by simp
  from a b c show ?thesis by blast
qed

subsection \<open>C7: evaluating twice\<close>

text \<open>
  C7, amended. Let the decision evaluator run twice on the same request over the same
  in-memory store, the map being iterated in the order \<open>o1\<close> the first time and \<open>o2\<close> the
  second time. If the store returns the same list both times, the two results are equal.
  In every case both runs return a Response or both return an error; two Responses have
  the same effect, and both have a Decider or neither has. The two Responses are equal
  when no two different statements of the store with the same effect apply to the
  request. (For two statements of the same effect that both apply, the message and the
  Decider follow the iteration order: see the counterexample.)
\<close>

theorem evaluation_up_to_iteration_order:
  assumes "iteration_order s o1" and "iteration_order s o2"
    and "r1 = Evaluate X (ListStatementsByPrincipal X s o1) req"
    and "r2 = Evaluate X (ListStatementsByPrincipal X s o2) req"
  shows "(ListStatementsByPrincipal X s o1 (Principal req) =
          ListStatementsByPrincipal X s o2 (Principal req) \<longrightarrow> r1 = r2) \<and>
         ((\<exists>a. r1 = Inr a) \<longleftrightarrow> (\<exists>b. r2 = Inr b)) \<and>
         (\<forall>a b. r1 = Inr a \<and> r2 = Inr b \<longrightarrow>
            Response.Effect a = Response.Effect b \<and> (Decider a = None \<longleftrightarrow> Decider b = None)) \<and>
         ((\<exists>a. r1 = Inr a) \<and>
          (\<forall>x\<in>ran (statements s). \<forall>y\<in>ran (statements s).
             applies X x req \<and> applies X y req \<and> Statement.Effect x = Statement.Effect y \<longrightarrow> x = y) \<longrightarrow>
            r1 = r2)"
proof -
  let ?L1 = "ListStatementsByPrincipal X s o1 (Principal req)"
  let ?L2 = "ListStatementsByPrincipal X s o2 (Principal req)"
  have ok1: "(\<exists>a. r1 = Inr a) \<longleftrightarrow> (\<exists>l1. ?L1 = Inr l1)"
    unfolding assms(3) by (cases ?L1) (auto simp: Evaluate_eq split: option.split)
  have ok2: "(\<exists>b. r2 = Inr b) \<longleftrightarrow> (\<exists>l2. ?L2 = Inr l2)"
    unfolding assms(4) by (cases ?L2) (auto simp: Evaluate_eq split: option.split)
  have same: "r1 = r2" if "?L1 = ?L2"
    unfolding assms(3,4) using that by (simp add: Evaluate_eq)
  have both: "(\<exists>a. r1 = Inr a) \<longleftrightarrow> (\<exists>b. r2 = Inr b)"
    using ok1 ok2 ListStatementsByPrincipal_orders(1)[OF assms(1,2)] by simp
  have agree: "Response.Effect a = Response.Effect b \<and> (Decider a = None \<longleftrightarrow> Decider b = None)"
    if ab: "r1 = Inr a \<and> r2 = Inr b" for a b
  proof -
    from ab ok1 ok2 obtain l1 l2 where l: "?L1 = Inr l1" "?L2 = Inr l2" by blast
    from ListStatementsByPrincipal_orders(2)[OF assms(1,2) l] have st: "set l1 = set l2" by simp
    from ab have ev: "Evaluate X (ListStatementsByPrincipal X s o1) req = Inr a"
      "Evaluate X (ListStatementsByPrincipal X s o2) req = Inr b"
      by (simp_all add: assms(3,4))
    from Evaluate_Effect[where storage = "ListStatementsByPrincipal X s o1", OF l(1) ev(1)]
         Evaluate_Effect[where storage = "ListStatementsByPrincipal X s o2", OF l(2) ev(2)] st
    have "Response.Effect a = Response.Effect b" by simp
    moreover
    from Evaluate_Decider[where storage = "ListStatementsByPrincipal X s o1", OF l(1) ev(1)]
         Evaluate_Decider[where storage = "ListStatementsByPrincipal X s o2", OF l(2) ev(2)] st
    have "Decider a = None \<longleftrightarrow> Decider b = None" by auto
    ultimately show ?thesis by simp
  qed
  have uniq: "r1 = r2"
    if h: "(\<exists>a. r1 = Inr a) \<and>
          (\<forall>x\<in>ran (statements s). \<forall>y\<in>ran (statements s).
             applies X x req \<and> applies X y req \<and> Statement.Effect x = Statement.Effect y \<longrightarrow> x = y)"
  proof -
    from h ok1 both ok2 obtain l1 l2 where l: "?L1 = Inr l1" "?L2 = Inr l2" by blast
    from ListStatementsByPrincipal_orders(2)[OF assms(1,2) l]
    have st: "set l1 = set l2" "set l1 \<subseteq> ran (statements s)" by blast+
    have "Evaluate X (ListStatementsByPrincipal X s o1) req =
          Evaluate X (ListStatementsByPrincipal X s o2) req"
      using l st(1)
    proof (rule Evaluate_same_set)
      show "\<forall>x\<in>set l1. \<forall>y\<in>set l1. applies X x req \<and> applies X y req \<and>
              Statement.Effect x = Statement.Effect y \<longrightarrow> x = y"
        using h st(2) by blast
    qed
    then show ?thesis by (simp add: assms(3,4))
  qed
  from same both agree uniq show ?thesis by blast
qed

theorem evaluation_up_to_iteration_order_witness:
  "(\<exists>a b.
      Evaluate example_X
        (ListStatementsByPrincipal example_X
           (example_store
              (example_statement ''allow-a'' EffectAllow [''user:1''] [''read''] [''document:1''] [])
              (example_statement ''allow-b'' EffectAllow [''user:*''] [''read''] [''document:*''] []))
           [''allow-a'', ''allow-b''])
        (example_request ''user:1'' ''read'' ''document:1'') = Inr a \<and>
      Evaluate example_X
        (ListStatementsByPrincipal example_X
           (example_store
              (example_statement ''allow-a'' EffectAllow [''user:1''] [''read''] [''document:1''] [])
              (example_statement ''allow-b'' EffectAllow [''user:*''] [''read''] [''document:*''] []))
           [''allow-b'', ''allow-a''])
        (example_request ''user:1'' ''read'' ''document:1'') = Inr b \<and>
      Response.Effect a = Response.Effect b \<and> Decider a \<noteq> None \<and> Decider b \<noteq> None) \<and>
   Evaluate example_X
     (ListStatementsByPrincipal example_X (example_store moderatorStatement analystDenyStatement)
        [''allow-moderator-download'', ''deny-analyst-specific''])
     (example_request ''roles/analyst'' ''invoice.download'' ''invoices/238423684'') =
   Evaluate example_X
     (ListStatementsByPrincipal example_X (example_store moderatorStatement analystDenyStatement)
        [''deny-analyst-specific'', ''allow-moderator-download''])
     (example_request ''roles/analyst'' ''invoice.download'' ''invoices/238423684'')"
proof -
  let ?A = "example_statement ''allow-a'' EffectAllow [''user:1''] [''read''] [''document:1''] []"
  let ?B = "example_statement ''allow-b'' EffectAllow [''user:*''] [''read''] [''document:*''] []"
  let ?s = "example_store ?A ?B"
  let ?req = "example_request ''user:1'' ''read'' ''document:1''"
  let ?r1 = "Evaluate example_X (ListStatementsByPrincipal example_X ?s [''allow-a'', ''allow-b'']) ?req"
  let ?r2 = "Evaluate example_X (ListStatementsByPrincipal example_X ?s [''allow-b'', ''allow-a'']) ?req"
  have io: "iteration_order ?s [''allow-a'', ''allow-b'']" "iteration_order ?s [''allow-b'', ''allow-a'']"
    by (auto simp: iteration_order_def expansion_defs example_defs)
  have ra: "?r1 = Inr \<lparr>Effect = EffectAllow, Message = ''allowed by statement '' @ example_Quote ''allow-a'',
                        Decider = Some ''allow-a''\<rparr>"
    by (simp add: expansion_defs example_defs)
  have rb: "?r2 = Inr \<lparr>Effect = EffectAllow, Message = ''allowed by statement '' @ example_Quote ''allow-b'',
                        Decider = Some ''allow-b''\<rparr>"
    by (simp add: expansion_defs example_defs)
  from evaluation_up_to_iteration_order[where X = example_X and req = ?req, OF io refl refl]
  have "\<forall>a b. ?r1 = Inr a \<and> ?r2 = Inr b \<longrightarrow>
            Response.Effect a = Response.Effect b \<and> (Decider a = None \<longleftrightarrow> Decider b = None)"
    by (elim conjE)
  with ra rb have one: "\<exists>a b. ?r1 = Inr a \<and> ?r2 = Inr b \<and> Response.Effect a = Response.Effect b \<and>
      Decider a \<noteq> None \<and> Decider b \<noteq> None"
    by simp
  let ?t = "example_store moderatorStatement analystDenyStatement"
  let ?req' = "example_request ''roles/analyst'' ''invoice.download'' ''invoices/238423684''"
  let ?q1 = "Evaluate example_X
     (ListStatementsByPrincipal example_X ?t [''allow-moderator-download'', ''deny-analyst-specific'']) ?req'"
  let ?q2 = "Evaluate example_X
     (ListStatementsByPrincipal example_X ?t [''deny-analyst-specific'', ''allow-moderator-download'']) ?req'"
  have io': "iteration_order ?t [''allow-moderator-download'', ''deny-analyst-specific'']"
    "iteration_order ?t [''deny-analyst-specific'', ''allow-moderator-download'']"
    by (auto simp: iteration_order_def expansion_defs example_defs)
  have "ran (statements ?t) = set (range_statements ?t [''allow-moderator-download'', ''deny-analyst-specific''])"
    using io'(1) by (simp add: set_range_statements)
  also have "\<dots> = {moderatorStatement, analystDenyStatement}"
    by (simp add: expansion_defs example_defs)
  finally have rn: "ran (statements ?t) = {moderatorStatement, analystDenyStatement}" .
  have u: "\<forall>x\<in>ran (statements ?t). \<forall>y\<in>ran (statements ?t).
             applies example_X x ?req' \<and> applies example_X y ?req' \<and>
             Statement.Effect x = Statement.Effect y \<longrightarrow> x = y"
    by (simp add: rn) (simp add: moderatorStatement_def analystDenyStatement_def example_defs)
  have ex: "\<exists>a. ?q1 = Inr a"
    by (simp add: expansion_defs example_defs)
  from evaluation_up_to_iteration_order[where X = example_X and req = ?req', OF io' refl refl]
  have "(\<exists>a. ?q1 = Inr a) \<and>
          (\<forall>x\<in>ran (statements ?t). \<forall>y\<in>ran (statements ?t).
             applies example_X x ?req' \<and> applies example_X y ?req' \<and>
             Statement.Effect x = Statement.Effect y \<longrightarrow> x = y) \<longrightarrow> ?q1 = ?q2"
    by (elim conjE)
  with ex u have two: "?q1 = ?q2" by blast
  from one two show ?thesis by blast
qed

text \<open>
  C7 as stated fails for the in-memory store: with two Allow statements that both match,
  the two iteration orders of the map give two different Responses, each naming the
  statement that the loop met first.
\<close>

theorem decider_depends_on_iteration_order:
  "iteration_order
     (example_store
        (example_statement ''allow-a'' EffectAllow [''user:1''] [''read''] [''document:1''] [])
        (example_statement ''allow-b'' EffectAllow [''user:*''] [''read''] [''document:*''] []))
     [''allow-a'', ''allow-b''] \<and>
   iteration_order
     (example_store
        (example_statement ''allow-a'' EffectAllow [''user:1''] [''read''] [''document:1''] [])
        (example_statement ''allow-b'' EffectAllow [''user:*''] [''read''] [''document:*''] []))
     [''allow-b'', ''allow-a''] \<and>
   Evaluate example_X
     (ListStatementsByPrincipal example_X
        (example_store
           (example_statement ''allow-a'' EffectAllow [''user:1''] [''read''] [''document:1''] [])
           (example_statement ''allow-b'' EffectAllow [''user:*''] [''read''] [''document:*''] []))
        [''allow-a'', ''allow-b''])
     (example_request ''user:1'' ''read'' ''document:1'') =
     Inr \<lparr>Effect = EffectAllow, Message = ''allowed by statement '' @ example_Quote ''allow-a'',
          Decider = Some ''allow-a''\<rparr> \<and>
   Evaluate example_X
     (ListStatementsByPrincipal example_X
        (example_store
           (example_statement ''allow-a'' EffectAllow [''user:1''] [''read''] [''document:1''] [])
           (example_statement ''allow-b'' EffectAllow [''user:*''] [''read''] [''document:*''] []))
        [''allow-b'', ''allow-a''])
     (example_request ''user:1'' ''read'' ''document:1'') =
     Inr \<lparr>Effect = EffectAllow, Message = ''allowed by statement '' @ example_Quote ''allow-b'',
          Decider = Some ''allow-b''\<rparr>"
  by (auto simp: iteration_order_def expansion_defs example_defs)

subsection \<open>C8: what the in-memory store lists\<close>




subsection \<open>C9: the bare star\<close>

text \<open>
  C9. In the decision evaluator a pattern list that starts with the bare pattern \<^verbatim>\<open>*\<close>
  matches every principal, action or resource name, also one with a \<^verbatim>\<open>/\<close>, because
  \<open>enhancePattern\<close> turns the pattern into \<^verbatim>\<open>**\<close> before the matcher sees it. The
  in-memory store hands the stored pattern to the matcher as it is, so for the principal
  \<^verbatim>\<open>users/mark\<close> it does not list a statement whose only principal pattern is \<^verbatim>\<open>*\<close>, and
  the decision evaluator over this store answers with the default Deny for an empty
  candidate list. The matcher is the one modelled from the specification.
\<close>

theorem bare_star_in_evaluator_and_store:
  "principalMatches example_X (''*'' # patterns) name \<and>
   actionMatches example_X (''*'' # patterns) name \<and>
   resourceMatches example_X (''*'' # patterns) name \<and>
   ListStatementsByPrincipal example_X
     (SaveStatement NewInMemoryStorage
        (example_statement ''allow-everyone'' EffectAllow [''*''] [''*''] [''*''] []))
     [''allow-everyone''] ''users/mark'' = Inr [] \<and>
   Evaluate example_X
     (ListStatementsByPrincipal example_X
        (SaveStatement NewInMemoryStorage
           (example_statement ''allow-everyone'' EffectAllow [''*''] [''*''] [''*''] []))
        [''allow-everyone''])
     (example_request ''users/mark'' ''invoice.download'' ''invoices/238423684'') =
     Inr \<lparr>Effect = EffectDeny,
          Message = ''no applicable statements found, access denied by default'',
          Decider = None\<rparr>"
proof -
  have "matched_dropping_error example_X (enhancePattern ''*'') name"
    by (simp add: matched_dropping_error_def enhancePattern_def example_X_def glob_Match_doublestar)
  then have "principalMatches example_X (''*'' # patterns) name"
    "actionMatches example_X (''*'' # patterns) name"
    "resourceMatches example_X (''*'' # patterns) name"
    by simp_all
  moreover have "ListStatementsByPrincipal example_X
     (SaveStatement NewInMemoryStorage
        (example_statement ''allow-everyone'' EffectAllow [''*''] [''*''] [''*''] []))
     [''allow-everyone''] ''users/mark'' = Inr []"
    by (simp add: expansion_defs example_defs)
  ultimately show ?thesis by (simp add: Evaluate_eq example_request_def)
qed

subsection \<open>C10: a failing Deny condition under the expansion\<close>

text \<open>
  C10, amended. Let the wrapped evaluator be the decision evaluator, and let storage
  return, for a resolved principal \<open>p\<close>, a list with a Deny statement that matches the
  request made for \<open>p\<close> on principal, action and resource and whose condition evaluation
  fails. Then the decision evaluator answers for \<open>p\<close> with a Deny that has a Decider, and
  the effect of the merged result is Deny in every case, whatever explicit Allow another
  resolved principal gets. When storage answers for every other resolved principal, the
  merged Decider is \<^verbatim>\<open>principal_expansion:\<close> followed by the first resolved principal
  with an explicit Deny, which is \<open>p\<close> or a principal before \<open>p\<close>; it is \<open>p\<close> when no
  principal before \<open>p\<close> has an explicit Deny.
\<close>

theorem failed_deny_condition_across_expansion:
  assumes "resolver e (Principal req) = Inr (pre @ p # post)"
    and "baseEvaluator e = Evaluate X storage"
    and "storage p = Inr stmts"
    and "s \<in> set stmts" and "Statement.Effect s = EffectDeny"
    and "principalMatches X (Principals s) p"
    and "actionMatches X (Actions s) (Action req)"
    and "resourceMatches X (Resources s) (Resource req)"
    and "allConditionsMet X (Conditions s) (req\<lparr>Principal := p\<rparr>) = Inl err"
  shows "(\<exists>r. Evaluate X storage (req\<lparr>Principal := p\<rparr>) = Inr r \<and>
              Response.Effect r = EffectDeny \<and> Decider r \<noteq> None) \<and>
         (\<exists>r. ExpandingEvaluator_Evaluate e req = Inr r \<and> Response.Effect r = EffectDeny) \<and>
         ((\<forall>q\<in>set (pre @ post). \<exists>ss. storage q = Inr ss) \<longrightarrow>
            (\<exists>dp\<in>set (pre @ [p]).
               find (explicit EffectDeny (Evaluate X storage) req) (pre @ p # post) = Some dp \<and>
               ExpandingEvaluator_Evaluate e req =
                 Inr \<lparr>Effect = EffectDeny, Message = ''access denied for principal '' @ dp,
                      Decider = Some (''principal_expansion:'' @ dp)\<rparr>)) \<and>
         ((\<forall>q\<in>set (pre @ post). \<exists>ss. storage q = Inr ss) \<and>
          (\<forall>q\<in>set pre. \<not> explicit EffectDeny (Evaluate X storage) req q) \<longrightarrow>
            ExpandingEvaluator_Evaluate e req =
              Inr \<lparr>Effect = EffectDeny, Message = ''access denied for principal '' @ p,
                   Decider = Some (''principal_expansion:'' @ p)\<rparr>)"
proof -
  let ?ps = "pre @ p # post"
  let ?P = "explicit EffectDeny (Evaluate X storage) req"
  have sm: "statementMatches X s (req\<lparr>Principal := p\<rparr>) = Inl err"
    using assms(6-9) by (simp add: statementMatches_Inl_iff)
  have base: "\<exists>r. Evaluate X storage (req\<lparr>Principal := p\<rparr>) = Inr r \<and>
              Response.Effect r = EffectDeny \<and> Decider r \<noteq> None"
    using assms(3,4,5) sm by (intro Evaluate_applies_deny[where stmts = stmts and s = s]) simp_all
  then have ex: "?P p" by (auto simp: explicit_def)
  have closed: "\<exists>r. ExpandingEvaluator_Evaluate e req = Inr r \<and> Response.Effect r = EffectDeny"
    using assms(1) ex by (intro Expanding_Deny_if_explicit_deny[where ps = ?ps and p = p]) (simp_all add: assms(2))
  have all_ok: "\<forall>q\<in>set ?ps. \<exists>response. baseEvaluator e (req\<lparr>Principal := q\<rparr>) = Inr response"
    if ok: "\<forall>q\<in>set (pre @ post). \<exists>ss. storage q = Inr ss"
  proof
    fix q assume "q \<in> set ?ps"
    with ok assms(3) obtain ss where "storage (Principal (req\<lparr>Principal := q\<rparr>)) = Inr ss" by auto
    from Evaluate_total[where storage = storage, OF this]
    show "\<exists>response. baseEvaluator e (req\<lparr>Principal := q\<rparr>) = Inr response"
      by (simp add: assms(2))
  qed
  have first: "\<exists>dp\<in>set (pre @ [p]). find ?P ?ps = Some dp \<and>
               ExpandingEvaluator_Evaluate e req =
                 Inr \<lparr>Effect = EffectDeny, Message = ''access denied for principal '' @ dp,
                      Decider = Some (''principal_expansion:'' @ dp)\<rparr>"
    if ok: "\<forall>q\<in>set (pre @ post). \<exists>ss. storage q = Inr ss"
  proof -
    have m: "ExpandingEvaluator_Evaluate e req = Inr (merged (baseEvaluator e) req ?ps)"
      using assms(1) all_ok[OF ok] by (rule Expanding_merged)
    have "find ?P ?ps = (case find ?P pre of None \<Rightarrow> Some p | Some x \<Rightarrow> Some x)"
      using ex by (simp add: find_append_first split: option.split)
    then obtain dp where dp: "find ?P ?ps = Some dp" "dp \<in> set (pre @ [p])"
      by (cases "find ?P pre") (auto simp: find_Some_iff)
    then show ?thesis using m by (auto simp: merged_def assms(2))
  qed
  have that_one: "ExpandingEvaluator_Evaluate e req =
              Inr \<lparr>Effect = EffectDeny, Message = ''access denied for principal '' @ p,
                   Decider = Some (''principal_expansion:'' @ p)\<rparr>"
    if ok: "\<forall>q\<in>set (pre @ post). \<exists>ss. storage q = Inr ss"
      and none: "\<forall>q\<in>set pre. \<not> ?P q"
  proof -
    have m: "ExpandingEvaluator_Evaluate e req = Inr (merged (baseEvaluator e) req ?ps)"
      using assms(1) all_ok[OF ok] by (rule Expanding_merged)
    have "find ?P pre = None" using none by (simp add: find_None_iff)
    then have "find ?P ?ps = Some p" using ex by (simp add: find_append_first)
    then show ?thesis using m by (simp add: merged_def assms(2))
  qed
  from base closed first that_one show ?thesis by blast
qed

theorem failed_deny_condition_across_expansion_witness:
  "Evaluate example_X (example_storage moderatorStatement analystBadConditionStatement)
     ((example_request ''users/mark'' ''invoice.download'' ''invoices/238423684'')
        \<lparr>Principal := ''roles/moderator''\<rparr>) =
     Inr \<lparr>Effect = EffectAllow,
          Message = ''allowed by statement '' @ example_Quote ''allow-moderator-download'',
          Decider = Some ''allow-moderator-download''\<rparr> \<and>
   ExpandingEvaluator_Evaluate
     (example_expanding (example_storage moderatorStatement analystBadConditionStatement))
     (example_request ''users/mark'' ''invoice.download'' ''invoices/238423684'') =
     Inr \<lparr>Effect = EffectDeny, Message = ''access denied for principal roles/analyst'',
          Decider = Some ''principal_expansion:roles/analyst''\<rparr>"
proof -
  let ?st = "example_storage moderatorStatement analystBadConditionStatement"
  let ?e = "example_expanding ?st"
  let ?req = "example_request ''users/mark'' ''invoice.download'' ''invoices/238423684''"
  let ?err = "WrapError (''failed to evaluate condition '' @ example_Quote ''BadCond'' @ '': '')
                (ErrorString ''unexpected token'')"
  have a: "Evaluate example_X ?st (?req\<lparr>Principal := ''roles/moderator''\<rparr>) =
     Inr \<lparr>Effect = EffectAllow,
          Message = ''allowed by statement '' @ example_Quote ''allow-moderator-download'',
          Decider = Some ''allow-moderator-download''\<rparr>"
    by (simp add: expansion_defs example_defs)
  have "(\<exists>r. Evaluate example_X ?st (?req\<lparr>Principal := ''roles/analyst''\<rparr>) = Inr r \<and>
              Response.Effect r = EffectDeny \<and> Decider r \<noteq> None) \<and>
         (\<exists>r. ExpandingEvaluator_Evaluate ?e ?req = Inr r \<and> Response.Effect r = EffectDeny) \<and>
         ((\<forall>q\<in>set ([''users/mark'', ''roles/moderator''] @ []). \<exists>ss. ?st q = Inr ss) \<longrightarrow>
            (\<exists>dp\<in>set ([''users/mark'', ''roles/moderator''] @ [''roles/analyst'']).
               find (explicit EffectDeny (Evaluate example_X ?st) ?req)
                 ([''users/mark'', ''roles/moderator''] @ ''roles/analyst'' # []) = Some dp \<and>
               ExpandingEvaluator_Evaluate ?e ?req =
                 Inr \<lparr>Effect = EffectDeny, Message = ''access denied for principal '' @ dp,
                      Decider = Some (''principal_expansion:'' @ dp)\<rparr>)) \<and>
         ((\<forall>q\<in>set ([''users/mark'', ''roles/moderator''] @ []). \<exists>ss. ?st q = Inr ss) \<and>
          (\<forall>q\<in>set [''users/mark'', ''roles/moderator''].
              \<not> explicit EffectDeny (Evaluate example_X ?st) ?req q) \<longrightarrow>
            ExpandingEvaluator_Evaluate ?e ?req =
              Inr \<lparr>Effect = EffectDeny, Message = ''access denied for principal '' @ ''roles/analyst'',
                   Decider = Some (''principal_expansion:'' @ ''roles/analyst'')\<rparr>)"
    by (rule failed_deny_condition_across_expansion[where s = analystBadConditionStatement
          and stmts = "[analystBadConditionStatement]" and err = ?err])
       (simp_all add: expansion_defs example_defs)
  then have "(\<forall>q\<in>set ([''users/mark'', ''roles/moderator''] @ []). \<exists>ss. ?st q = Inr ss) \<and>
          (\<forall>q\<in>set [''users/mark'', ''roles/moderator''].
              \<not> explicit EffectDeny (Evaluate example_X ?st) ?req q) \<longrightarrow>
            ExpandingEvaluator_Evaluate ?e ?req =
              Inr \<lparr>Effect = EffectDeny, Message = ''access denied for principal '' @ ''roles/analyst'',
                   Decider = Some (''principal_expansion:'' @ ''roles/analyst'')\<rparr>"
    by (elim conjE)
  moreover have "(\<forall>q\<in>set ([''users/mark'', ''roles/moderator''] @ []). \<exists>ss. ?st q = Inr ss) \<and>
          (\<forall>q\<in>set [''users/mark'', ''roles/moderator''].
              \<not> explicit EffectDeny (Evaluate example_X ?st) ?req q)"
    by (simp add: expansion_defs example_defs)
  ultimately have "ExpandingEvaluator_Evaluate ?e ?req =
              Inr \<lparr>Effect = EffectDeny, Message = ''access denied for principal '' @ ''roles/analyst'',
                   Decider = Some (''principal_expansion:'' @ ''roles/analyst'')\<rparr>"
    by (rule mp)
  with a show ?thesis by simp
qed

text \<open>
  C10 as stated fails when a principal resolved earlier is explicitly denied as well: the
  condition of the Deny statement for \<^verbatim>\<open>roles/analyst\<close> fails to evaluate and the decision
  evaluator denies that role with a Decider, but the merged Decider names the user, who
  comes first, not the role.
\<close>

theorem first_denying_principal_is_named:
  "example_resolver ''users/mark'' = Inr [''users/mark'', ''roles/moderator'', ''roles/analyst''] \<and>
   Evaluate example_X (example_storage markDenyStatement analystBadConditionStatement)
     ((example_request ''users/mark'' ''invoice.download'' ''invoices/238423684'')
        \<lparr>Principal := ''roles/analyst''\<rparr>) =
     Inr \<lparr>Effect = EffectDeny,
          Message = ''failed to evaluate condition for deny statement '' @
                    example_Quote ''deny-analyst-bad-cond'' @ '': failed to evaluate condition '' @
                    example_Quote ''BadCond'' @ '': unexpected token'',
          Decider = Some ''deny-analyst-bad-cond''\<rparr> \<and>
   ExpandingEvaluator_Evaluate
     (example_expanding (example_storage markDenyStatement analystBadConditionStatement))
     (example_request ''users/mark'' ''invoice.download'' ''invoices/238423684'') =
     Inr \<lparr>Effect = EffectDeny, Message = ''access denied for principal users/mark'',
          Decider = Some ''principal_expansion:users/mark''\<rparr>"
  by (simp add: expansion_defs example_defs)

end
